theory Spec2Isabelle
  imports Main "HOL-Library.AList"
begin

section \<open>Strings\<close>

text \<open>
  JavaScript strings are modelled as \<^typ>\<open>string\<close> (lists of 8-bit characters): request
  lines and header values reach the program as Latin-1 text. Case mapping is the ASCII one.
\<close>

definition to_lower_char :: "char \<Rightarrow> char" where
  "to_lower_char c =
     (case map_of (zip ''ABCDEFGHIJKLMNOPQRSTUVWXYZ'' ''abcdefghijklmnopqrstuvwxyz'') c of
        Some l \<Rightarrow> l
      | None \<Rightarrow> c)"

definition toLowerCase :: "string \<Rightarrow> string" where
  "toLowerCase s = map to_lower_char s"

text \<open>\<open>s.lastIndexOf(p, 0) === 0\<close>, and a regular expression \<open>/^p/\<close> for a literal \<open>p\<close>.\<close>

definition startsWith :: "string \<Rightarrow> string \<Rightarrow> bool" where
  "startsWith s p = (take (length p) s = p)"

text \<open>\<open>/^p/i\<close> for a lower-case literal \<open>p\<close>.\<close>

definition startsWith_ci :: "string \<Rightarrow> string \<Rightarrow> bool" where
  "startsWith_ci s p = (toLowerCase (take (length p) s) = p)"

definition is_digit :: "char \<Rightarrow> bool" where
  "is_digit c = (c \<in> set ''0123456789'')"

definition digit_value :: "char \<Rightarrow> nat" where
  "digit_value c =
     (case map_of (zip ''0123456789'' [0, 1, 2, 3, 4, 5, 6, 7, 8, 9]) c of
        Some d \<Rightarrow> d
      | None \<Rightarrow> 0)"

definition string_to_nat :: "string \<Rightarrow> nat" where
  "string_to_nat s = foldl (\<lambda>a c. 10 * a + digit_value c) 0 s"

text \<open>\<open>Number.prototype.toString()\<close> on a non-negative integer.\<close>

fun nat_to_string :: "nat \<Rightarrow> string" where
  "nat_to_string n =
     (if n < 10 then [''0123456789'' ! n]
      else nat_to_string (n div 10) @ [''0123456789'' ! (n mod 10)])"

text \<open>\<open>Array.prototype.join(',')\<close>, which is also how an array is turned into a string.\<close>

fun join :: "string list \<Rightarrow> string" where
  "join [] = []"
| "join [x] = x"
| "join (x # y # ys) = x @ '','' @ join (y # ys)"

text \<open>
  The value of a string used as a number in a comparison: \<open>None\<close> is \<open>NaN\<close>. Only strings
  of decimal digits are read as numbers; the port of a parsed URL has no other form.
\<close>

definition js_number :: "string \<Rightarrow> nat option" where
  "js_number s = (if list_all is_digit s then Some (string_to_nat s) else None)"

section \<open>Header objects\<close>

text \<open>
  A header object is a JavaScript object with string values: an association list in
  insertion order. Assigning to a name that is present keeps its place, assigning to a
  new name appends it, \<open>delete\<close> removes it.
\<close>

type_synonym headers = "(string \<times> string) list"

definition hget :: "headers \<Rightarrow> string \<Rightarrow> string option" where
  "hget h k = map_of h k"

definition hset :: "headers \<Rightarrow> string \<Rightarrow> string \<Rightarrow> headers" where
  "hset h k v = AList.update k v h"

definition hdel :: "headers \<Rightarrow> string \<Rightarrow> headers" where
  "hdel h k = AList.delete k h"

text \<open>\<open>Object.hasOwnProperty.call(h, k)\<close>\<close>

definition hasOwnProperty :: "headers \<Rightarrow> string \<Rightarrow> bool" where
  "hasOwnProperty h k = (k \<in> set (map fst h))"

text \<open>A property read used as a condition: \<open>undefined\<close> and the empty string are falsy.\<close>

definition truthy :: "string option \<Rightarrow> bool" where
  "truthy v = (case v of None \<Rightarrow> False | Some s \<Rightarrow> s \<noteq> [])"

text \<open>
  \<open>Object.keys\<close>: the names that are array indices (canonical decimal numerals below
  \<open>2^32 - 1\<close>) come first, in ascending numeric order; every other name follows in
  insertion order.
\<close>

definition is_array_index :: "string \<Rightarrow> bool" where
  "is_array_index k =
     (k \<noteq> [] \<and> list_all is_digit k \<and> (k = ''0'' \<or> hd k \<noteq> CHR ''0'')
      \<and> (length k < 10 \<or> (length k = 10 \<and> string_to_nat k < 4294967295)))"

definition Object_keys :: "headers \<Rightarrow> string list" where
  "Object_keys h =
     sort_key string_to_nat (filter is_array_index (map fst h))
     @ filter (\<lambda>k. \<not> is_array_index k) (map fst h)"

section \<open>Requests and their state\<close>

text \<open>The fields of the object \<open>url.parse\<close> returns that the program reads.\<close>

record Url =
  protocol :: string
  host :: string
  hostname :: string
  port :: "string option"
  path :: string
  href :: string

text \<open>
  \<open>req.corsAnywhereRequestState\<close>. The handler creates it with the first three fields;
  \<open>location\<close> and \<open>proxyBaseUrl\<close> are \<open>undefined\<close> (\<open>None\<close>) until it sets them, and
  \<open>redirectCount\<close> (the source's \<open>redirectCount_\<close>) until the first redirect is counted.
\<close>

record requestState =
  getProxyForUrl :: "string \<Rightarrow> string"
  maxRedirects :: nat
  corsMaxAge :: nat
  location :: "Url option"
  proxyBaseUrl :: "string option"
  redirectCount :: "nat option"

text \<open>
  The incoming message: \<open>req.method\<close>, \<open>req.url\<close>, \<open>req.headers\<close>,
  \<open>req.connection.encrypted\<close> and the state above.
\<close>

record request =
  req_method :: string
  url :: string
  headers :: headers
  encrypted :: bool
  corsAnywhereRequestState :: requestState

section \<open>withCORS\<close>

definition withCORS :: "headers \<Rightarrow> request \<Rightarrow> headers \<times> request" where
  "withCORS headers0 request0 =
     (let headers1 = hset headers0 ''Access-Control-Allow-Origin'' ''*'';
          corsMaxAge' = corsMaxAge (corsAnywhereRequestState request0);
          headers2 =
            (if req_method request0 = ''OPTIONS'' \<and> corsMaxAge' \<noteq> 0
             then hset headers1 ''Access-Control-Max-Age'' (nat_to_string corsMaxAge')
             else headers1);
          (headers3, request1) =
            (case hget (headers request0) ''Access-Control-Request-Method'' of
               None \<Rightarrow> (headers2, request0)
             | Some v \<Rightarrow>
                 if v = [] then (headers2, request0)
                 else (hset headers2 ''Access-Control-Allow-Methods'' v,
                       request0\<lparr>headers := hdel (headers request0) ''Access-Control-Request-Method''\<rparr>));
          (headers4, request2) =
            (case hget (headers request1) ''Access-Control-Request-Headers'' of
               None \<Rightarrow> (headers3, request1)
             | Some v \<Rightarrow>
                 if v = [] then (headers3, request1)
                 else (hset headers3 ''Access-Control-Allow-Headers'' v,
                       request1\<lparr>headers := hdel (headers request1) ''Access-Control-Request-Headers''\<rparr>));
          headers5 = hset headers4 ''Access-Control-Expose-Headers'' (join (Object_keys headers4))
      in (headers5, request2))"

text \<open>
  The steps of \<open>withCORS\<close> one by one, for the proofs: the \<open>Access-Control-Max-Age\<close>
  header of a pre-flight request, the echo of one request header into a response header
  (lines 77 to 80 and 82 to 85), and the headers and the request as they are when
  \<open>Access-Control-Expose-Headers\<close> is computed.
\<close>

definition max_age_header :: "headers \<Rightarrow> request \<Rightarrow> headers" where
  "max_age_header h r =
     (if req_method r = ''OPTIONS'' \<and> corsMaxAge (corsAnywhereRequestState r) \<noteq> 0
      then hset h ''Access-Control-Max-Age''
             (nat_to_string (corsMaxAge (corsAnywhereRequestState r)))
      else h)"

definition echo_header :: "string \<Rightarrow> string \<Rightarrow> headers \<times> request \<Rightarrow> headers \<times> request" where
  "echo_header request_name response_name hr =
     (case hget (headers (snd hr)) request_name of
        None \<Rightarrow> hr
      | Some v \<Rightarrow>
          if v = [] then hr
          else (hset (fst hr) response_name v,
                (snd hr)\<lparr>headers := hdel (headers (snd hr)) request_name\<rparr>))"

definition cors_before_expose :: "headers \<Rightarrow> request \<Rightarrow> headers \<times> request" where
  "cors_before_expose h r =
     echo_header ''Access-Control-Request-Headers'' ''Access-Control-Allow-Headers''
       (echo_header ''Access-Control-Request-Method'' ''Access-Control-Allow-Methods''
          (max_age_header (hset h ''Access-Control-Allow-Origin'' ''*'') r, r))"

section \<open>parseURL\<close>

text \<open>
  The match of the pattern
  \<^verbatim>\<open>/^(?:(https?:)?\/\/)?(([^\/?]+?)(?::(\d{0,5})(?=[\/?]|$))?)([\/?][\S\s]*|$)/i\<close>:
  group 1 is the protocol, 3 the hostname, 4 the port and 5 the path with the query
  string; group 2 (the host) is the text of groups 3 and 4 with the colon between them.
  A group that did not take part in the match is \<open>None\<close>.
\<close>

record url_match =
  match1 :: "string option"
  match3 :: string
  match4 :: "string option"
  match5 :: string

text \<open>The class \<open>[^\/?]\<close>.\<close>

definition is_host_char :: "char \<Rightarrow> bool" where
  "is_host_char c = (c \<noteq> CHR ''/'' \<and> c \<noteq> CHR ''?'')"

text \<open>
  The lookahead \<open>(?=[\/?]|$)\<close> at the remainder \<open>r\<close>. Where it holds, the last group
  \<open>([\/?][\S\s]*|$)\<close> matches all of \<open>r\<close>; where it fails, that group fails too.
\<close>

definition lookahead :: "string \<Rightarrow> bool" where
  "lookahead r = (case r of [] \<Rightarrow> True | c # _ \<Rightarrow> c = CHR ''/'' \<or> c = CHR ''?'')"

text \<open>
  The optional group \<open>(?::(\d{0,5})(?=[\/?]|$))?\<close> at the remainder \<open>r\<close>: a colon, then
  the digits, greedily (the counts are tried from the most digits available, at most five,
  down to none), then the lookahead. The result is the digits and what follows them.
\<close>

definition match_port :: "string \<Rightarrow> (string \<times> string) option" where
  "match_port r =
     (case r of
        [] \<Rightarrow> None
      | c # r' \<Rightarrow>
          if c = CHR '':'' then
            (case find (\<lambda>d. lookahead (drop d r'))
                       (rev [0..<Suc (length (takeWhile is_digit (take 5 r')))]) of
               None \<Rightarrow> None
             | Some d \<Rightarrow> Some (take d r', drop d r'))
          else None)"

text \<open>
  The lazy group \<open>([^\/?]+?)\<close> and what follows it: \<open>acc\<close> is the hostname taken so
  far (not empty) and \<open>r\<close> the remainder. The port group is tried first, then the match
  without it, and only then is the hostname extended by one character.
\<close>

fun match_host :: "string \<Rightarrow> string \<Rightarrow> (string \<times> string option \<times> string) option" where
  "match_host acc r =
     (case match_port r of
        Some (p, r') \<Rightarrow> Some (acc, Some p, r')
      | None \<Rightarrow>
          if lookahead r then Some (acc, None, r)
          else (case r of
                  [] \<Rightarrow> None
                | c # r' \<Rightarrow> if is_host_char c then match_host (acc @ [c]) r' else None))"

definition match_from_host :: "string option \<Rightarrow> string \<Rightarrow> url_match option" where
  "match_from_host proto r =
     (case r of
        [] \<Rightarrow> None
      | c # r' \<Rightarrow>
          if is_host_char c then
            (case match_host [c] r' of
               None \<Rightarrow> None
             | Some (h, p, rest) \<Rightarrow>
                 Some \<lparr>match1 = proto, match3 = h, match4 = p, match5 = rest\<rparr>)
          else None)"

text \<open>
  The optional prefix \<open>(?:(https?:)?\/\/)?\<close>, its alternatives in the order the matcher
  tries them: with the protocol (\<open>https:\<close> before \<open>http:\<close>), with the two slashes alone,
  and without the prefix.
\<close>

definition url_regex_match :: "string \<Rightarrow> url_match option" where
  "url_regex_match s =
     (let with_https =
            (if startsWith_ci s ''https://'' then match_from_host (Some (take 6 s)) (drop 8 s)
             else None);
          with_http =
            (if startsWith_ci s ''http://'' then match_from_host (Some (take 5 s)) (drop 7 s)
             else None);
          with_slashes =
            (if startsWith s ''//'' then match_from_host None (drop 2 s) else None)
      in case with_https of
           Some m \<Rightarrow> Some m
         | None \<Rightarrow>
             (case with_http of
                Some m \<Rightarrow> Some m
              | None \<Rightarrow>
                  (case with_slashes of
                     Some m \<Rightarrow> Some m
                   | None \<Rightarrow> match_from_host None s)))"

text \<open>
  What the program takes from Node and from the rest of the repository: \<open>url.parse\<close>,
  \<open>url.resolve\<close>, \<open>net.isIPv4\<close>, \<open>net.isIPv6\<close> and \<open>fs.readFile\<close> (\<open>None\<close> is a read
  error) are library functions, and \<open>regexp_tld\<close> is the pattern of the module
  \<open>./regexp-top-level-domain\<close>. They are parameters of the model.
\<close>

record node =
  url_parse :: "string \<Rightarrow> Url"
  url_resolve :: "string \<Rightarrow> string \<Rightarrow> string"
  regexp_tld_test :: "string \<Rightarrow> bool"
  isIPv4 :: "string \<Rightarrow> bool"
  isIPv6 :: "string \<Rightarrow> bool"
  readFile :: "string \<Rightarrow> string option"

text \<open>The string \<open>parseURL\<close> hands to \<open>url.parse\<close> when the protocol was omitted.\<close>

definition add_scheme :: "url_match \<Rightarrow> string \<Rightarrow> string" where
  "add_scheme m req_url =
     (let req_url' = (if \<not> startsWith req_url ''//'' then ''//'' @ req_url else req_url)
      in (if match4 m = Some ''443'' then ''https:'' else ''http:'') @ req_url')"

definition parseURL :: "node \<Rightarrow> string \<Rightarrow> Url option" where
  "parseURL env req_url =
     (case url_regex_match req_url of
        None \<Rightarrow> None
      | Some m \<Rightarrow>
          if match1 m = None \<and> (startsWith_ci req_url ''http:'' \<or> startsWith_ci req_url ''https:'')
          then None
          else
            (let req_url' = (if match1 m = None then add_scheme m req_url else req_url);
                 parsed = url_parse env req_url'
             in if hostname parsed = [] then None else Some parsed))"

section \<open>The redirect follower\<close>

text \<open>
  \<open>res_headers\<close> are the headers staged on the client's response with \<open>res.setHeader\<close>
  (the names the program stages differ in more than their case, so the staging is an
  assignment by name); \<open>proxyRes_headers\<close> is \<open>proxyRes.headers\<close>.
\<close>

definition res_setHeader :: "headers \<Rightarrow> string \<Rightarrow> string \<Rightarrow> headers" where
  "res_setHeader res_headers name v = hset res_headers name v"

text \<open>
  What \<open>onProxyResponse\<close> decides: \<open>Reissue\<close> is the call \<open>proxyRequest(req, res, proxy)\<close>
  followed by \<open>return false\<close>, with the request and the staged headers as they are at
  the call; \<open>Relay\<close> is \<open>return true\<close>, with the request, the staged headers and
  \<open>proxyRes.headers\<close> as the function leaves them; \<open>Throw\<close> is a \<open>TypeError\<close> that
  leaves the function (reading \<open>href\<close> of an undefined \<open>location\<close>, or assigning to a
  constant).
\<close>

datatype decision =
    Reissue request headers
  | Relay request headers headers
  | Throw

text \<open>\<open>'' + v\<close> for a string that may be \<open>undefined\<close>.\<close>

definition js_string :: "string option \<Rightarrow> string" where
  "js_string v = (case v of None \<Rightarrow> ''undefined'' | Some s \<Rightarrow> s)"

text \<open>Lines 233 to 239: the cookies are stripped, \<open>x-final-url\<close> and the CORS headers set.\<close>

definition relay :: "request \<Rightarrow> headers \<Rightarrow> headers \<Rightarrow> Url \<Rightarrow> decision" where
  "relay req res_headers proxyRes_headers loc =
     (let h1 = hdel proxyRes_headers ''set-cookie'';
          h2 = hdel h1 ''set-cookie2'';
          h3 = hset h2 ''x-final-url'' (href loc);
          (h4, req') = withCORS h3 req
      in Relay req' res_headers h4)"

text \<open>Lines 188 to 190: on the first hop the requested URL is staged.\<close>

definition request_url_staged :: "request \<Rightarrow> Url \<Rightarrow> headers \<Rightarrow> headers" where
  "request_url_staged req loc res_headers =
     (if redirectCount (corsAnywhereRequestState req) = None
         \<or> redirectCount (corsAnywhereRequestState req) = Some 0
      then res_setHeader res_headers ''x-request-url'' (href loc)
      else res_headers)"

text \<open>Line 202: \<open>requestState.redirectCount_ + 1 || 1\<close>.\<close>

definition next_count :: "requestState \<Rightarrow> nat" where
  "next_count requestState = (case redirectCount requestState of None \<Rightarrow> 1 | Some n \<Rightarrow> n + 1)"

text \<open>
  Lines 199 to 239, for a response with a redirect status: \<open>locationHeader\<close> and
  \<open>parsedLocation\<close> are the two values as lines 193 to 198 leave them, \<open>None\<close> for
  \<open>undefined\<close>, and \<open>res_headers1\<close> the staged headers after line 190.
\<close>

definition redirect_decision ::
  "nat \<Rightarrow> headers \<Rightarrow> request \<Rightarrow> headers \<Rightarrow> Url \<Rightarrow> string option \<Rightarrow> Url option \<Rightarrow> decision" where
  "redirect_decision statusCode proxyRes_headers req res_headers1 loc locationHeader parsedLocation =
     (let requestState = corsAnywhereRequestState req
      in case parsedLocation of
           None \<Rightarrow> relay req res_headers1 proxyRes_headers loc
         | Some parsedLocation' \<Rightarrow>
             if statusCode = 301 \<or> statusCode = 302 \<or> statusCode = 303
             then
               (if next_count requestState \<le> maxRedirects requestState
                then
                  Reissue
                    (req\<lparr>req_method := ''GET'',
                         headers := hdel (hset (headers req) ''content-length'' ''0'')
                                      ''content-type'',
                         corsAnywhereRequestState :=
                           requestState\<lparr>redirectCount := Some (next_count requestState),
                                          location := Some parsedLocation'\<rparr>\<rparr>)
                    (res_setHeader res_headers1
                       (''X-CORS-Redirect-'' @ nat_to_string (next_count requestState))
                       (nat_to_string statusCode @ '' '' @ js_string locationHeader))
                else
                  relay
                    (req\<lparr>corsAnywhereRequestState :=
                           requestState\<lparr>redirectCount := Some (next_count requestState)\<rparr>\<rparr>)
                    res_headers1
                    (hset proxyRes_headers ''location''
                       (js_string (proxyBaseUrl requestState) @ ''/'' @ js_string locationHeader))
                    loc)
             else
               relay req res_headers1
                 (hset proxyRes_headers ''location''
                    (js_string (proxyBaseUrl requestState) @ ''/'' @ js_string locationHeader))
                 loc)"

text \<open>
  Lines 193 to 198 as they are written. \<open>locationHeader\<close> and \<open>parsedLocation\<close> are
  declared with \<open>const\<close>, the second without a value: \<open>locationHeader\<close> is the \<open>Location\<close>
  header of the response and \<open>parsedLocation\<close> is \<open>undefined\<close>. When the header is not
  empty, line 196 calls \<open>url.resolve\<close> and assigns the result to the constant
  \<open>locationHeader\<close>; the assignment throws a \<open>TypeError\<close>, and line 197 is not reached.
  The result is the error, or the two values as line 199 finds them.
\<close>

datatype 'a completion = Normal 'a | TypeError

definition redirect_target :: "headers \<Rightarrow> (string option \<times> Url option) completion" where
  "redirect_target proxyRes_headers =
     (let locationHeader = hget proxyRes_headers ''location'';
          parsedLocation = None
      in if truthy locationHeader then TypeError
         else Normal (locationHeader, parsedLocation))"

definition onProxyResponse :: "node \<Rightarrow> nat \<Rightarrow> headers \<Rightarrow> request \<Rightarrow> headers \<Rightarrow> decision" where
  "onProxyResponse env statusCode proxyRes_headers req res_headers =
     (let requestState = corsAnywhereRequestState req
      in case location requestState of
           None \<Rightarrow> Throw
         | Some loc \<Rightarrow>
             (let res_headers1 = request_url_staged req loc res_headers
              in if statusCode = 301 \<or> statusCode = 302 \<or> statusCode = 303
                    \<or> statusCode = 307 \<or> statusCode = 308
                 then
                   (case redirect_target proxyRes_headers of
                      TypeError \<Rightarrow> Throw
                    | Normal (locationHeader, parsedLocation) \<Rightarrow>
                        redirect_decision statusCode proxyRes_headers req res_headers1 loc
                          locationHeader parsedLocation)
                 else relay req res_headers1 proxyRes_headers loc))"

text \<open>
  The same function with \<open>let\<close> for the \<open>const\<close> of lines 193 and 194, which is what the
  assignments of lines 196 and 197 need: \<open>locationHeader\<close> becomes the \<open>Location\<close> resolved
  against the current target and \<open>parsedLocation\<close> its parse. Nothing else differs. It is
  not the program; it shows what the program does once the two declarations are repaired.
\<close>

definition redirect_target_let :: "node \<Rightarrow> Url \<Rightarrow> headers \<Rightarrow> string option \<times> Url option" where
  "redirect_target_let env loc proxyRes_headers =
     (case hget proxyRes_headers ''location'' of
        None \<Rightarrow> (None, None)
      | Some l \<Rightarrow>
          if l = [] then (Some l, None)
          else (Some (url_resolve env (href loc) l), parseURL env (url_resolve env (href loc) l)))"

definition onProxyResponse_let :: "node \<Rightarrow> nat \<Rightarrow> headers \<Rightarrow> request \<Rightarrow> headers \<Rightarrow> decision" where
  "onProxyResponse_let env statusCode proxyRes_headers req res_headers =
     (let requestState = corsAnywhereRequestState req
      in case location requestState of
           None \<Rightarrow> Throw
         | Some loc \<Rightarrow>
             (let res_headers1 = request_url_staged req loc res_headers
              in if statusCode = 301 \<or> statusCode = 302 \<or> statusCode = 303
                    \<or> statusCode = 307 \<or> statusCode = 308
                 then
                   (case redirect_target_let env loc proxyRes_headers of
                      (locationHeader, parsedLocation) \<Rightarrow>
                        redirect_decision statusCode proxyRes_headers req res_headers1 loc
                          locationHeader parsedLocation)
                 else relay req res_headers1 proxyRes_headers loc))"

section \<open>The proxy engine and its error handler\<close>

text \<open>
  What the client is sent. \<open>Response\<close> is \<open>res.writeHead\<close> with a status, an optional
  status message and the headers, and \<open>res.end\<close> with the body. \<open>Relayed\<close> leaves the
  engine to pipe the upstream response: its status, the headers staged on \<open>res\<close> and
  \<open>proxyRes.headers\<close>. \<open>Claimed\<close>: the \<open>handleInitialRequest\<close> hook took the request.
  \<open>Uncaught\<close>: a \<open>TypeError\<close> left the handler.
\<close>

datatype outcome =
    Response nat "string option" headers string
  | Relayed nat headers headers
  | Claimed
  | Uncaught

text \<open>
  The listener of the engine's \<open>error\<close> event (\<open>createServer\<close>). Once the headers are
  sent the response is only ended; before, the staged headers are removed and a 404 is
  written. \<open>None\<close>: the client is sent nothing more.
\<close>

definition onProxyError :: "bool \<Rightarrow> headers \<Rightarrow> string \<Rightarrow> outcome option" where
  "onProxyError headersSent res_headers err =
     (if headersSent then None
      else Some (Response 404 None
                   (hset (fold (\<lambda>name h. hdel h name) (map fst res_headers) res_headers)
                      ''Access-Control-Allow-Origin'' ''*'')
                   (''Not found because of proxy error: '' @ err)))"

text \<open>
  The upstream servers, as the answers the engine gets to its successive requests: a
  response (status and headers) or a failure. An empty list is an upstream that never
  answers.
\<close>

datatype upstream = UpResponse nat headers | UpError string

text \<open>
  \<open>proxyRequest\<close> with the engine's part: the request is sent, and the answer goes to
  \<open>onProxyResponse\<close> or, for a failure, to the \<open>error\<close> listener. The options handed
  to the engine do not bear on what the client is sent and are left out.
\<close>

fun proxyRequest :: "node \<Rightarrow> upstream list \<Rightarrow> request \<Rightarrow> headers \<Rightarrow> outcome option" where
  "proxyRequest env up req res_headers =
     (case location (corsAnywhereRequestState req) of
        None \<Rightarrow> Some Uncaught
      | Some loc \<Rightarrow>
          (let proxyThroughUrl = getProxyForUrl (corsAnywhereRequestState req) (href loc);
               req1 = req\<lparr>url := (if proxyThroughUrl \<noteq> [] then href loc else path loc)\<rparr>
           in case up of
                [] \<Rightarrow> None
              | UpError err # rest \<Rightarrow> onProxyError False res_headers err
              | UpResponse statusCode proxyRes_headers # rest \<Rightarrow>
                  (case onProxyResponse env statusCode proxyRes_headers req1 res_headers of
                     Reissue req2 res_headers2 \<Rightarrow> proxyRequest env rest req2 res_headers2
                   | Relay req2 res_headers2 proxyRes_headers2 \<Rightarrow>
                       Some (Relayed statusCode res_headers2 proxyRes_headers2)
                   | Throw \<Rightarrow> Some Uncaught)))"

text \<open>
  A name is unstaged on the client's response when it has no value there and is none of the
  names the program stages.
\<close>

definition unstaged :: "string \<Rightarrow> headers \<Rightarrow> bool" where
  "unstaged k res_headers =
     (hget res_headers k = None \<and> k \<noteq> ''x-request-url'' \<and> take 16 k \<noteq> ''X-CORS-Redirect-'')"

section \<open>The request handler\<close>

text \<open>
  \<open>showUsage\<close>, with \<open>help_text\<close> the cache of the help files read so far. The read is
  followed by a call of the function itself, which answers from the cache; a help file
  that is read as the empty string is read again and again, and nothing is sent (\<open>None\<close>).
\<close>

partial_function (option) showUsage ::
  "node \<Rightarrow> (string \<Rightarrow> string option) \<Rightarrow> string \<Rightarrow> headers \<Rightarrow> outcome option" where
  "showUsage env help_text help_file headers0 =
     (if truthy (help_text help_file)
      then Some (Response 200 None
                   (hset headers0 ''content-type''
                      (if drop (length help_file - 5) help_file = ''.html'' then ''text/html''
                       else ''text/plain''))
                   (js_string (help_text help_file)))
      else
        (case readFile env help_file of
           None \<Rightarrow>
             Some (Response 500 None
                     (hset headers0 ''content-type''
                        (if drop (length help_file - 5) help_file = ''.html'' then ''text/html''
                         else ''text/plain''))
                     [])
         | Some data \<Rightarrow>
             showUsage env (help_text(help_file \<mapsto> data)) help_file
               (hset headers0 ''content-type''
                  (if drop (length help_file - 5) help_file = ''.html'' then ''text/html''
                   else ''text/plain''))))"

declare showUsage.simps [code]

definition isValidHostName :: "node \<Rightarrow> string \<Rightarrow> bool" where
  "isValidHostName env hostname' =
     (regexp_tld_test env hostname' \<or> isIPv4 env hostname' \<or> isIPv6 env hostname')"

text \<open>
  The option \<open>requireHeader\<close> as the caller gives it: \<open>null\<close> (or another falsy value), a
  string, an array of strings, or something else.
\<close>

datatype require_header =
    RequireNull
  | RequireString string
  | RequireArray "string list"
  | RequireOther

text \<open>
  The options of \<open>getHandler\<close> after the defaults are merged in (the object
  \<open>corsAnywhere\<close>). A \<open>checkRateLimit\<close> that returns nothing returns the empty string.
\<close>

record corsAnywhere =
  handleInitialRequest :: "(request \<Rightarrow> Url option \<Rightarrow> bool) option"
  getProxyForUrl :: "string \<Rightarrow> string"
  maxRedirects :: nat
  originBlacklist :: "string list"
  originWhitelist :: "string list"
  checkRateLimit :: "(string \<Rightarrow> string) option"
  redirectSameOrigin :: bool
  requireHeader :: require_header
  removeHeaders :: "string list"
  setHeaders :: headers
  corsMaxAge :: nat
  helpFile :: string

text \<open>\<open>requireHeader\<close> as an array of lower-case names, or \<open>null\<close>.\<close>

definition normalizeRequireHeader :: "require_header \<Rightarrow> string list option" where
  "normalizeRequireHeader r =
     (case r of
        RequireNull \<Rightarrow> None
      | RequireString s \<Rightarrow> if s = [] then None else Some [toLowerCase s]
      | RequireArray names \<Rightarrow> if names = [] then None else Some (map toLowerCase names)
      | RequireOther \<Rightarrow> None)"

definition hasRequiredHeaders :: "string list option \<Rightarrow> headers \<Rightarrow> bool" where
  "hasRequiredHeaders required h =
     (case required of
        None \<Rightarrow> True
      | Some names \<Rightarrow> list_ex (\<lambda>headerName. hasOwnProperty h headerName) names)"

text \<open>The class \<open>\s\<close> on 8-bit characters.\<close>

definition is_space :: "char \<Rightarrow> bool" where
  "is_space c = (c \<in> set [CHR 0x20, CHR 0x09, CHR 0x0A, CHR 0x0B, CHR 0x0C, CHR 0x0D, CHR 0xA0])"

text \<open>\<open>/^\/https?:\/[^/]/i.test(req.url)\<close>\<close>

definition missing_slash :: "string \<Rightarrow> bool" where
  "missing_slash u =
     ((startsWith_ci u ''/http:/'' \<and> 7 < length u \<and> u ! 7 \<noteq> CHR ''/'')
      \<or> (startsWith_ci u ''/https:/'' \<and> 8 < length u \<and> u ! 8 \<noteq> CHR ''/''))"

text \<open>The pairs \<open>Object.keys(h).forEach\<close> visits.\<close>

definition Object_entries :: "headers \<Rightarrow> (string \<times> string) list" where
  "Object_entries h = map (\<lambda>k. (k, js_string (hget h k))) (Object_keys h)"

text \<open>The state the handler gives a request (lines 318 to 322).\<close>

definition initialState :: "corsAnywhere \<Rightarrow> requestState" where
  "initialState options =
     \<lparr>requestState.getProxyForUrl = corsAnywhere.getProxyForUrl options,
      requestState.maxRedirects = corsAnywhere.maxRedirects options,
      requestState.corsMaxAge = corsAnywhere.corsMaxAge options,
      location = None, proxyBaseUrl = None, redirectCount = None\<rparr>"

text \<open>\<open>location.port > 65535\<close>: a missing port is \<open>null\<close>, which compares as 0.\<close>

definition port_too_large :: "Url \<Rightarrow> bool" where
  "port_too_large loc =
     (case port loc of
        None \<Rightarrow> False
      | Some p \<Rightarrow> (case js_number p of None \<Rightarrow> False | Some n \<Rightarrow> 65535 < n))"

text \<open>
  The function \<open>getHandler\<close> returns, applied to a request: \<open>help_text\<close> is the cache of
  \<open>showUsage\<close> and \<open>up\<close> the answers of the upstream servers.
\<close>

definition getHandler ::
  "corsAnywhere \<Rightarrow> node \<Rightarrow> (string \<Rightarrow> string option) \<Rightarrow> upstream list \<Rightarrow> request \<Rightarrow> outcome option" where
  "getHandler options env help_text up req0 =
     (let (cors_headers, req) =
            withCORS [] (req0\<lparr>corsAnywhereRequestState := initialState options\<rparr>)
      in if req_method req = ''OPTIONS'' then Some (Response 200 None cors_headers [])
         else
           (let location' = parseURL env (drop 1 (url req))
            in if (case handleInitialRequest options of
                     None \<Rightarrow> False
                   | Some hook \<Rightarrow> hook req location')
               then Some Claimed
               else
                 (case location' of
                    None \<Rightarrow>
                      if missing_slash (url req)
                      then Some (Response 400 (Some ''Missing slash'') cors_headers
                                   ''The URL is invalid: two slashes are needed after the http(s):.'')
                      else showUsage env help_text (helpFile options) cors_headers
                  | Some loc \<Rightarrow>
                      if host loc = ''iscorsneeded''
                      then Some (Response 200 None [(''Content-Type'', ''text/plain'')] ''no'')
                      else if port_too_large loc
                      then Some (Response 400 (Some ''Invalid port'') cors_headers
                                   (''Port number too large: '' @ js_string (port loc)))
                      else if \<not> (startsWith (url req) ''/http:'' \<or> startsWith (url req) ''/https:'')
                              \<and> \<not> isValidHostName env (hostname loc)
                      then Some (Response 404 (Some ''Invalid host'') cors_headers
                                   (''Invalid host: '' @ hostname loc))
                      else if \<not> hasRequiredHeaders (normalizeRequireHeader (requireHeader options))
                                  (headers req)
                      then Some (Response 400 (Some ''Header required'') cors_headers
                                   (''Missing required request header. Must specify one of: ''
                                    @ (case normalizeRequireHeader (requireHeader options) of
                                         None \<Rightarrow> ''null''
                                       | Some names \<Rightarrow> join names)))
                      else
                        (let origin = (case hget (headers req) ''origin'' of
                                         None \<Rightarrow> []
                                       | Some v \<Rightarrow> v)
                         in if origin \<in> set (originBlacklist options)
                            then Some (Response 403 (Some ''Forbidden'') cors_headers
                                         (''The origin '' @ [CHR 0x22] @ origin @ [CHR 0x22]
                                          @ '' was blacklisted by the operator of this proxy.''))
                            else if originWhitelist options \<noteq> []
                                    \<and> origin \<notin> set (originWhitelist options)
                            then Some (Response 403 (Some ''Forbidden'') cors_headers
                                         (''The origin '' @ [CHR 0x22] @ origin @ [CHR 0x22]
                                          @ '' was not whitelisted by the operator of this proxy.''))
                            else
                              (let rateLimitMessage =
                                     (case checkRateLimit options of
                                        None \<Rightarrow> []
                                      | Some limit \<Rightarrow> limit origin)
                               in if rateLimitMessage \<noteq> []
                                  then Some (Response 429 (Some ''Too Many Requests'') cors_headers
                                               (''The origin '' @ [CHR 0x22] @ origin @ [CHR 0x22]
                                                @ '' has sent too many requests.'' @ [CHR 0x0A]
                                                @ rateLimitMessage))
                                  else if redirectSameOrigin options \<and> origin \<noteq> []
                                          \<and> length origin < length (href loc)
                                          \<and> href loc ! length origin = CHR ''/''
                                          \<and> startsWith (href loc) origin
                                  then Some (Response 301 (Some ''Please use a direct request'')
                                               (hset (hset (hset cors_headers ''consty'' ''origin'')
                                                        ''cache-control'' ''private'')
                                                  ''location'' (href loc))
                                               [])
                                  else
                                    (let isRequestedOverHttps =
                                           (encrypted req
                                            \<or> (case hget (headers req) ''x-forwarded-proto'' of
                                                  None \<Rightarrow> False
                                                | Some v \<Rightarrow> startsWith (dropWhile is_space v) ''https''));
                                         proxyBaseUrl' =
                                           (if isRequestedOverHttps then ''https://'' else ''http://'')
                                           @ js_string (hget (headers req) ''host'');
                                         headers1 = fold (\<lambda>header h. hdel h header)
                                                      (removeHeaders options) (headers req);
                                         headers2 = fold (\<lambda>(header, v) h. hset h header v)
                                                      (Object_entries (setHeaders options)) headers1
                                     in proxyRequest env up
                                          (req\<lparr>headers := headers2,
                                               corsAnywhereRequestState :=
                                                 (corsAnywhereRequestState req)
                                                   \<lparr>location := Some loc,
                                                    proxyBaseUrl := Some proxyBaseUrl'\<rparr>\<rparr>)
                                          []))))))"

text \<open>
  The handler from line 394 on, as a function of its own for the proofs: the rate limit,
  the redirect of a same-origin request and the proxying, for a request that has passed
  the checks before them.
\<close>

definition after_origin_checks ::
  "corsAnywhere \<Rightarrow> node \<Rightarrow> upstream list \<Rightarrow> headers \<Rightarrow> request \<Rightarrow> Url \<Rightarrow> string \<Rightarrow> outcome option" where
  "after_origin_checks options env up cors_headers req loc origin =
     (let rateLimitMessage =
            (case checkRateLimit options of
               None \<Rightarrow> []
             | Some limit \<Rightarrow> limit origin)
      in if rateLimitMessage \<noteq> []
         then Some (Response 429 (Some ''Too Many Requests'') cors_headers
                      (''The origin '' @ [CHR 0x22] @ origin @ [CHR 0x22]
                       @ '' has sent too many requests.'' @ [CHR 0x0A]
                       @ rateLimitMessage))
         else if redirectSameOrigin options \<and> origin \<noteq> []
                 \<and> length origin < length (href loc)
                 \<and> href loc ! length origin = CHR ''/''
                 \<and> startsWith (href loc) origin
         then Some (Response 301 (Some ''Please use a direct request'')
                      (hset (hset (hset cors_headers ''consty'' ''origin'')
                               ''cache-control'' ''private'')
                         ''location'' (href loc))
                      [])
         else
           (let isRequestedOverHttps =
                  (encrypted req
                   \<or> (case hget (headers req) ''x-forwarded-proto'' of
                         None \<Rightarrow> False
                       | Some v \<Rightarrow> startsWith (dropWhile is_space v) ''https''));
                proxyBaseUrl' =
                  (if isRequestedOverHttps then ''https://'' else ''http://'')
                  @ js_string (hget (headers req) ''host'');
                headers1 = fold (\<lambda>header h. hdel h header)
                             (removeHeaders options) (headers req);
                headers2 = fold (\<lambda>(header, v) h. hset h header v)
                             (Object_entries (setHeaders options)) headers1
            in proxyRequest env up
                 (req\<lparr>headers := headers2,
                      corsAnywhereRequestState :=
                        (corsAnywhereRequestState req)
                          \<lparr>location := Some loc,
                           proxyBaseUrl := Some proxyBaseUrl'\<rparr>\<rparr>)
                 []))"

section \<open>A plain instance of the library\<close>

text \<open>
  For the closed examples the library parameter is instantiated with a small \<open>url.parse\<close>
  that splits a plain absolute URL (protocol, two slashes, host with an optional port,
  path) as Node does, a \<open>url.resolve\<close> for absolute references, which resolve to
  themselves, a hostname test that accepts the names ending in \<open>.com\<close>, and a file system
  with no readable file.
\<close>

definition plain_url_parse :: "string \<Rightarrow> Url" where
  "plain_url_parse s =
     (let proto = takeWhile (\<lambda>c. c \<noteq> CHR '':'') s @ '':'';
          after = drop (length proto + 2) s;
          hst = takeWhile (\<lambda>c. c \<notin> set ''/?#'') after;
          rest = takeWhile (\<lambda>c. c \<noteq> CHR ''#'') (drop (length hst) after);
          digits = rev (takeWhile is_digit (rev hst));
          has_port = (length digits < length hst
                      \<and> hst ! (length hst - length digits - 1) = CHR '':'');
          pth = (if rest = [] then ''/'' else rest)
      in \<lparr>protocol = toLowerCase proto,
          host = toLowerCase hst,
          hostname = toLowerCase (if has_port then take (length hst - length digits - 1) hst else hst),
          port = (if has_port \<and> digits \<noteq> [] then Some digits else None),
          path = pth,
          href = toLowerCase proto @ ''//'' @ toLowerCase hst @ pth\<rparr>)"

definition plain_node :: node where
  "plain_node =
     \<lparr>url_parse = plain_url_parse,
      url_resolve = (\<lambda>base ref. ref),
      regexp_tld_test = (\<lambda>h. drop (length h - 4) h = ''.com''),
      isIPv4 = (\<lambda>h. False),
      isIPv6 = (\<lambda>h. False),
      readFile = (\<lambda>f. None)\<rparr>"

text \<open>The default options of \<open>getHandler\<close>, with no proxy to go through.\<close>

definition default_options :: corsAnywhere where
  "default_options =
     \<lparr>handleInitialRequest = None,
      getProxyForUrl = (\<lambda>u. []),
      maxRedirects = 5,
      originBlacklist = [],
      originWhitelist = [],
      checkRateLimit = None,
      redirectSameOrigin = False,
      requireHeader = RequireNull,
      removeHeaders = [],
      setHeaders = [],
      corsMaxAge = 0,
      helpFile = ''/help.txt''\<rparr>"

text \<open>A request as Node delivers it; the state is the handler's to fill in.\<close>

definition incoming :: "string \<Rightarrow> string \<Rightarrow> headers \<Rightarrow> request" where
  "incoming m u h =
     \<lparr>req_method = m, url = u, headers = h, encrypted = False,
      corsAnywhereRequestState =
        \<lparr>requestState.getProxyForUrl = (\<lambda>u. []), requestState.maxRedirects = 0,
         requestState.corsMaxAge = 0, location = None, proxyBaseUrl = None,
         redirectCount = None\<rparr>\<rparr>"

section \<open>Header objects: basic facts\<close>

lemma hget_hset: "hget (hset h k v) k' = (if k' = k then Some v else hget h k')"
  by (simp add: hget_def hset_def update_conv')

lemma hget_hdel: "hget (hdel h k) k' = (if k' = k then None else hget h k')"
  by (simp add: hget_def hdel_def delete_conv')

lemma keys_hset:
  "map fst (hset h k v) = (if k \<in> set (map fst h) then map fst h else map fst h @ [k])"
  by (simp add: hset_def update_keys)

lemma keys_hdel: "map fst (hdel h k) = removeAll k (map fst h)"
  by (simp add: hdel_def delete_keys)

lemma set_keys_hset: "fst ` set (hset h k v) = insert k (fst ` set h)"
  by (simp add: hset_def dom_update)

lemma hget_None_iff: "hget h k = None \<longleftrightarrow> k \<notin> set (map fst h)"
  by (simp add: hget_def map_of_eq_None_iff)

lemma hdel_hset_new: "k \<notin> set (map fst h) \<Longrightarrow> hdel (hset h k v) k = h"
  by (induction h) (auto simp: hdel_def hset_def)

lemma set_Object_keys: "set (Object_keys h) = set (map fst h)"
  by (auto simp: Object_keys_def)

lemma Object_keys_cong: "map fst h = map fst h' \<Longrightarrow> Object_keys h = Object_keys h'"
  by (simp add: Object_keys_def)

section \<open>withCORS\<close>

lemma withCORS_steps:
  "withCORS h r =
     (hset (fst (cors_before_expose h r)) ''Access-Control-Expose-Headers''
        (join (Object_keys (fst (cors_before_expose h r)))),
      snd (cors_before_expose h r))"
proof -
  define a where "a = echo_header ''Access-Control-Request-Method'' ''Access-Control-Allow-Methods''
          (max_age_header (hset h ''Access-Control-Allow-Origin'' ''*'') r, r)"
  define b where "b = echo_header ''Access-Control-Request-Headers'' ''Access-Control-Allow-Headers'' a"
  have a: "(case hget (headers r) ''Access-Control-Request-Method'' of
               None \<Rightarrow> (max_age_header (hset h ''Access-Control-Allow-Origin'' ''*'') r, r)
             | Some v \<Rightarrow>
                 if v = [] then (max_age_header (hset h ''Access-Control-Allow-Origin'' ''*'') r, r)
                 else (hset (max_age_header (hset h ''Access-Control-Allow-Origin'' ''*'') r) ''Access-Control-Allow-Methods'' v,
                       r\<lparr>headers := hdel (headers r) ''Access-Control-Request-Method''\<rparr>)) = a"
    unfolding a_def echo_header_def by (simp split: option.split)
  have b: "(case hget (headers (snd a)) ''Access-Control-Request-Headers'' of
               None \<Rightarrow> (fst a, snd a)
             | Some v \<Rightarrow>
                 if v = [] then (fst a, snd a)
                 else (hset (fst a) ''Access-Control-Allow-Headers'' v,
                       (snd a)\<lparr>headers := hdel (headers (snd a)) ''Access-Control-Request-Headers''\<rparr>)) = b"
    unfolding b_def echo_header_def by (simp split: option.split)
  have "withCORS h r = (hset (fst b) ''Access-Control-Expose-Headers'' (join (Object_keys (fst b))), snd b)"
    unfolding withCORS_def Let_def max_age_header_def[symmetric] a
    by (simp only: case_prod_beta b)
  then show ?thesis by (simp only: cors_before_expose_def a_def b_def)
qed

lemma hget_max_age_header:
  "k \<noteq> ''Access-Control-Max-Age'' \<Longrightarrow> hget (max_age_header h r) k = hget h k"
  by (simp add: max_age_header_def hget_hset)

lemma keys_max_age_header: "fst ` set h \<subseteq> fst ` set (max_age_header h r)"
  by (auto simp: max_age_header_def set_keys_hset)

lemma hget_echo_header:
  "k \<noteq> response_name \<Longrightarrow> hget (fst (echo_header request_name response_name hr)) k = hget (fst hr) k"
  by (simp add: echo_header_def hget_hset split: option.split)

lemma keys_echo_header:
  "fst ` set (fst hr) \<subseteq> fst ` set (fst (echo_header request_name response_name hr))"
  by (auto simp: echo_header_def set_keys_hset split: option.split)

lemma echo_header_request:
  "req_method (snd (echo_header n t hr)) = req_method (snd hr)"
  "url (snd (echo_header n t hr)) = url (snd hr)"
  "encrypted (snd (echo_header n t hr)) = encrypted (snd hr)"
  "corsAnywhereRequestState (snd (echo_header n t hr)) = corsAnywhereRequestState (snd hr)"
  by (simp_all add: echo_header_def split: option.split)

lemma echo_header_request_headers:
  "k \<noteq> n \<Longrightarrow> hget (headers (snd (echo_header n t hr))) k = hget (headers (snd hr)) k"
  by (simp add: echo_header_def hget_hdel split: option.split)

lemma withCORS_request:
  "req_method (snd (withCORS h r)) = req_method r"
  "url (snd (withCORS h r)) = url r"
  "encrypted (snd (withCORS h r)) = encrypted r"
  "corsAnywhereRequestState (snd (withCORS h r)) = corsAnywhereRequestState r"
  by (simp_all add: withCORS_steps cors_before_expose_def echo_header_request)

lemma withCORS_request_headers:
  "k \<noteq> ''Access-Control-Request-Method'' \<Longrightarrow> k \<noteq> ''Access-Control-Request-Headers'' \<Longrightarrow>
   hget (headers (snd (withCORS h r))) k = hget (headers r) k"
  by (simp add: withCORS_steps cors_before_expose_def echo_header_request_headers)

lemma withCORS_allow_origin:
  "hget (fst (withCORS h r)) ''Access-Control-Allow-Origin'' = Some ''*''"
  by (simp add: withCORS_steps cors_before_expose_def hget_hset hget_echo_header hget_max_age_header)

lemma withCORS_other_header:
  assumes "k \<noteq> ''Access-Control-Allow-Origin''" "k \<noteq> ''Access-Control-Max-Age''"
    "k \<noteq> ''Access-Control-Allow-Methods''" "k \<noteq> ''Access-Control-Allow-Headers''"
    "k \<noteq> ''Access-Control-Expose-Headers''"
  shows "hget (fst (withCORS h r)) k = hget h k"
  using assms
  by (simp add: withCORS_steps cors_before_expose_def hget_hset hget_echo_header hget_max_age_header)



lemma hasOwnProperty_hget: "hasOwnProperty h k = (hget h k \<noteq> None)"
  by (simp add: hasOwnProperty_def hget_def map_of_eq_None_iff)

lemma startsWith_append: "startsWith s p \<Longrightarrow> p @ drop (length p) s = s"
  unfolding startsWith_def using append_take_drop_id[of "length p" s] by simp

lemma plain_protocol:
  "protocol (plain_url_parse s) = toLowerCase (takeWhile (\<lambda>c. c \<noteq> CHR '':'') s @ '':'')"
  by (simp add: plain_url_parse_def Let_def)

lemma keys_cors_before_expose:
  "insert ''Access-Control-Allow-Origin'' (fst ` set h) \<subseteq> fst ` set (fst (cors_before_expose h r))"
proof -
  have "fst ` set (hset h ''Access-Control-Allow-Origin'' ''*'') \<subseteq> fst ` set (fst (cors_before_expose h r))"
    unfolding cors_before_expose_def
    by (rule subset_trans[OF _ keys_echo_header], rule subset_trans[OF _ keys_echo_header])
       (simp add: keys_max_age_header)
  then show ?thesis by (simp only: set_keys_hset)
qed

lemma has_expose_cors_before_expose:
  "hasOwnProperty (fst (cors_before_expose h r)) ''Access-Control-Expose-Headers'' = hasOwnProperty h ''Access-Control-Expose-Headers''"
proof -
  have "hget (fst (cors_before_expose h r)) ''Access-Control-Expose-Headers'' = hget h ''Access-Control-Expose-Headers''"
    by (simp add: cors_before_expose_def hget_hset hget_echo_header hget_max_age_header)
  then show ?thesis
    by (simp only: hasOwnProperty_hget)
qed


lemma hdel_absent: "k \<notin> fst ` set h \<Longrightarrow> hdel h k = h"
  by (simp add: hdel_def delete_id)

section \<open>Claims about withCORS\<close>

text \<open>
  C7, as amended. The value \<open>withCORS\<close> gives \<open>Access-Control-Expose-Headers\<close> is the
  comma-separated list, in the order of \<open>Object.keys\<close>, of the names the header object
  holds when the value is computed, which is after every other assignment of \<open>withCORS\<close>:
  every name the object was given and \<open>Access-Control-Allow-Origin\<close> are in the list, and
  \<open>Access-Control-Expose-Headers\<close> itself only when the object already had it. What the
  handler adds to the object afterwards is not listed.
\<close>
theorem withCORS_expose_headers:
  "hget (fst (withCORS h r)) ''Access-Control-Expose-Headers''
     = Some (join (Object_keys
         (if hasOwnProperty h ''Access-Control-Expose-Headers'' then fst (withCORS h r)
          else hdel (fst (withCORS h r)) ''Access-Control-Expose-Headers'')))
   \<and> insert ''Access-Control-Allow-Origin'' (set (map fst h))
       \<subseteq> set (Object_keys
         (if hasOwnProperty h ''Access-Control-Expose-Headers'' then fst (withCORS h r)
          else hdel (fst (withCORS h r)) ''Access-Control-Expose-Headers''))"
proof -
  define b where "b = fst (cors_before_expose h r)"
  have w: "fst (withCORS h r) = hset b ''Access-Control-Expose-Headers'' (join (Object_keys b))"
    by (simp add: withCORS_steps b_def)
  have e: "hasOwnProperty b ''Access-Control-Expose-Headers'' = hasOwnProperty h ''Access-Control-Expose-Headers''"
    unfolding b_def by (rule has_expose_cors_before_expose)
  have k: "Object_keys (if hasOwnProperty h ''Access-Control-Expose-Headers'' then fst (withCORS h r)
          else hdel (fst (withCORS h r)) ''Access-Control-Expose-Headers'') = Object_keys b"
  proof (cases "hasOwnProperty h ''Access-Control-Expose-Headers''")
    case True
    with e have "''Access-Control-Expose-Headers'' \<in> set (map fst b)"
      by (simp add: hasOwnProperty_def)
    then have "map fst (fst (withCORS h r)) = map fst b"
      unfolding w by (simp only: keys_hset if_True)
    then have "Object_keys (fst (withCORS h r)) = Object_keys b"
      by (rule Object_keys_cong)
    with True show ?thesis by (simp only: if_True)
  next
    case False
    with e have "''Access-Control-Expose-Headers'' \<notin> set (map fst b)"
      by (simp add: hasOwnProperty_def)
    then have "hdel (fst (withCORS h r)) ''Access-Control-Expose-Headers'' = b"
      unfolding w by (rule hdel_hset_new)
    with False show ?thesis by (simp only: if_False)
  qed
  have v: "hget (fst (withCORS h r)) ''Access-Control-Expose-Headers'' = Some (join (Object_keys b))"
    unfolding w by (simp add: hget_hset)
  have s: "insert ''Access-Control-Allow-Origin'' (set (map fst h)) \<subseteq> set (Object_keys b)"
    using keys_cors_before_expose[of h r] by (simp add: set_Object_keys b_def)
  show ?thesis
    unfolding k using v s by simp
qed

text \<open>
  C7, as stated, fails. With \<open>redirectSameOrigin\<close> set, a request for an URL of its own
  origin is answered 301 with the headers of \<open>withCORS\<close> and, added after them (lines 404
  to 406), \<open>consty\<close>, \<open>cache-control\<close> and \<open>location\<close>: the response has five header
  names and \<open>Access-Control-Expose-Headers\<close> lists one.
\<close>
theorem expose_headers_counterexample:
  "getHandler (default_options\<lparr>redirectSameOrigin := True\<rparr>) plain_node Map.empty []
     (incoming ''GET'' ''/http://example.com/x'' [(''origin'', ''http://example.com'')])
   = Some (Response 301 (Some ''Please use a direct request'')
       [(''Access-Control-Allow-Origin'', ''*''),
        (''Access-Control-Expose-Headers'', ''Access-Control-Allow-Origin''),
        (''consty'', ''origin''), (''cache-control'', ''private''),
        (''location'', ''http://example.com/x'')]
       [])
   \<and> Object_keys
       [(''Access-Control-Allow-Origin'', ''*''),
        (''Access-Control-Expose-Headers'', ''Access-Control-Allow-Origin''),
        (''consty'', ''origin''), (''cache-control'', ''private''),
        (''location'', ''http://example.com/x'')]
     = [''Access-Control-Allow-Origin'', ''Access-Control-Expose-Headers'', ''consty'',
        ''cache-control'', ''location'']"
  by code_simp

text \<open>
  C8. Node delivers the names of the request headers in lower case, and \<open>withCORS\<close> looks
  them up with capitals: a pre-flight request with \<open>Access-Control-Request-Method: PUT\<close>
  and \<open>Access-Control-Request-Headers: x-token\<close> gets neither
  \<open>Access-Control-Allow-Methods\<close> nor \<open>Access-Control-Allow-Headers\<close>, and both request
  headers stay on the request.
\<close>
theorem withCORS_lower_case_request_headers:
  "fst (withCORS [] (incoming ''OPTIONS'' ''/http://example.com/''
          [(''access-control-request-method'', ''PUT''),
           (''access-control-request-headers'', ''x-token'')]))
     = [(''Access-Control-Allow-Origin'', ''*''),
        (''Access-Control-Expose-Headers'', ''Access-Control-Allow-Origin'')]
   \<and> headers (snd (withCORS [] (incoming ''OPTIONS'' ''/http://example.com/''
          [(''access-control-request-method'', ''PUT''),
           (''access-control-request-headers'', ''x-token'')])))
     = [(''access-control-request-method'', ''PUT''),
        (''access-control-request-headers'', ''x-token'')]"
  by code_simp

section \<open>Claims about parseURL\<close>

text \<open>
  C9. \<open>parseURL\<close> returns \<open>null\<close> for \<open>http:/onlyone\<close>, whatever \<open>url.parse\<close> does: the
  pattern matches with the protocol group unset (it takes \<open>http\<close> for the hostname and an
  empty port) while the string starts with \<open>http:\<close>. For \<open>:1/\<close> the pattern matches, the
  string handed to \<open>url.parse\<close> is \<open>http://:1/\<close>, and the result is \<open>null\<close> exactly when
  the hostname of the parsed URL is empty.
\<close>
theorem parseURL_malformed:
  "url_regex_match ''http:/onlyone''
     = Some \<lparr>match1 = None, match3 = ''http'', match4 = Some [], match5 = ''/onlyone''\<rparr>
   \<and> parseURL env ''http:/onlyone'' = None
   \<and> parseURL env '':1/''
     = (if hostname (url_parse env ''http://:1/'') = [] then None
        else Some (url_parse env ''http://:1/''))"
proof -
  have m1: "url_regex_match ''http:/onlyone''
     = Some \<lparr>match1 = None, match3 = ''http'', match4 = Some [], match5 = ''/onlyone''\<rparr>"
    by code_simp
  have m2: "url_regex_match '':1/''
     = Some \<lparr>match1 = None, match3 = '':1'', match4 = None, match5 = ''/''\<rparr>"
    by code_simp
  have s1: "startsWith_ci ''http:/onlyone'' ''http:''"
    by code_simp
  have s2: "\<not> startsWith_ci '':1/'' ''http:''" "\<not> startsWith_ci '':1/'' ''https:''"
    by code_simp+
  have a: "add_scheme \<lparr>match1 = None, match3 = '':1'', match4 = None, match5 = ''/''\<rparr> '':1/''
     = ''http://:1/''"
    by code_simp
  show ?thesis
    using m1 m2 s1 s2 a by (simp add: parseURL_def Let_def)
qed

text \<open>C9 at the plain instance of the library, where \<open>http://:1/\<close> has no hostname.\<close>

theorem parseURL_malformed_witness:
  "parseURL plain_node ''http:/onlyone'' = None \<and> parseURL plain_node '':1/'' = None"
proof -
  have "hostname (url_parse plain_node ''http://:1/'') = []"
    by code_simp
  with parseURL_malformed[of plain_node] show ?thesis by simp
qed

text \<open>
  C4. For a \<open>url.parse\<close> that reports the protocol an \<open>http://\<close> or \<open>https://\<close> URL
  starts with: when the pattern matches a string without binding the protocol group and
  \<open>parseURL\<close> accepts the string, the protocol of the result is \<open>https:\<close> if and only if
  the port group is exactly \<open>443\<close>, and \<open>http:\<close> otherwise.
\<close>
theorem parseURL_inferred_scheme:
  assumes "\<forall>t. protocol (url_parse env (''http://'' @ t)) = ''http:''"
    and "\<forall>t. protocol (url_parse env (''https://'' @ t)) = ''https:''"
    and "url_regex_match req_url = Some m"
    and "match1 m = None"
    and "parseURL env req_url = Some parsed"
  shows "(protocol parsed = ''https:'' \<longleftrightarrow> match4 m = Some ''443'')
       \<and> (protocol parsed = ''http:'' \<longleftrightarrow> match4 m \<noteq> Some ''443'')"
proof -
  define rest where
    "rest = (if startsWith req_url ''//'' then drop (length ''//'') req_url else req_url)"
  have r: "(if \<not> startsWith req_url ''//'' then ''//'' @ req_url else req_url) = ''//'' @ rest"
  proof (cases "startsWith req_url ''//''")
    case True
    from startsWith_append[OF True] True show ?thesis
      unfolding rest_def by (simp only: if_True not_True_eq_False if_False)
  next
    case False
    then show ?thesis
      unfolding rest_def by (simp only: if_True if_False not_False_eq_True)
  qed
  have p: "parsed = url_parse env (add_scheme m req_url)"
    using assms(3,4,5) by (simp add: parseURL_def Let_def split: if_splits)
  show ?thesis
  proof (cases "match4 m = Some ''443''")
    case True
    then have "add_scheme m req_url = ''https://'' @ rest"
      by (simp add: add_scheme_def Let_def r)
    with p assms(2) True show ?thesis by simp
  next
    case False
    then have "add_scheme m req_url = ''http://'' @ rest"
      by (simp add: add_scheme_def Let_def r)
    with p assms(1) False show ?thesis by simp
  qed
qed

text \<open>C4 at \<open>example.com:443/x\<close> and at \<open>example.com:8443/x\<close>.\<close>

theorem parseURL_inferred_scheme_witness:
  "protocol (the (parseURL plain_node ''example.com:443/x'')) = ''https:''
   \<and> match4 (the (url_regex_match ''example.com:443/x'')) = Some ''443''
   \<and> protocol (the (parseURL plain_node ''example.com:8443/x'')) = ''http:''
   \<and> match4 (the (url_regex_match ''example.com:8443/x'')) = Some ''8443''"
proof -
  have h1: "\<forall>t. protocol (url_parse plain_node (''http://'' @ t)) = ''http:''"
    by (simp add: plain_node_def plain_protocol toLowerCase_def to_lower_char_def)
  have h2: "\<forall>t. protocol (url_parse plain_node (''https://'' @ t)) = ''https:''"
    by (simp add: plain_node_def plain_protocol toLowerCase_def to_lower_char_def)
  have m1: "url_regex_match ''example.com:443/x''
    = Some \<lparr>match1 = None, match3 = ''example.com'', match4 = Some ''443'', match5 = ''/x''\<rparr>"
    by code_simp
  have m2: "url_regex_match ''example.com:8443/x''
    = Some \<lparr>match1 = None, match3 = ''example.com'', match4 = Some ''8443'', match5 = ''/x''\<rparr>"
    by code_simp
  have p1: "parseURL plain_node ''example.com:443/x'' = Some (plain_url_parse ''https://example.com:443/x'')"
    by code_simp
  have p2: "parseURL plain_node ''example.com:8443/x'' = Some (plain_url_parse ''http://example.com:8443/x'')"
    by code_simp
  from parseURL_inferred_scheme[OF h1 h2 m1 _ p1] parseURL_inferred_scheme[OF h1 h2 m2 _ p2]
  show ?thesis by (simp add: m1 m2 p1 p2)
qed


section \<open>The redirect follower: case analysis\<close>

lemma relay_eq:
  "relay req res_headers proxyRes_headers loc =
     Relay (snd (withCORS (hset (hdel (hdel proxyRes_headers ''set-cookie'') ''set-cookie2'')
                            ''x-final-url'' (href loc)) req))
       res_headers
       (fst (withCORS (hset (hdel (hdel proxyRes_headers ''set-cookie'') ''set-cookie2'')
                            ''x-final-url'' (href loc)) req))"
  by (simp add: relay_def Let_def case_prod_beta)

lemma relay_headers:
  assumes "relay req res_headers proxyRes_headers loc = Relay req' res_headers' proxyRes_headers'"
  shows "res_headers' = res_headers"
    and "hget proxyRes_headers' ''set-cookie'' = None"
    and "hget proxyRes_headers' ''set-cookie2'' = None"
    and "hget proxyRes_headers' ''Access-Control-Allow-Origin'' = Some ''*''"
    and "hget proxyRes_headers' ''x-final-url'' = Some (href loc)"
    and "k \<noteq> ''set-cookie'' \<Longrightarrow> k \<noteq> ''set-cookie2'' \<Longrightarrow> k \<noteq> ''x-final-url'' \<Longrightarrow>
         k \<noteq> ''Access-Control-Allow-Origin'' \<Longrightarrow> k \<noteq> ''Access-Control-Max-Age'' \<Longrightarrow>
         k \<noteq> ''Access-Control-Allow-Methods'' \<Longrightarrow> k \<noteq> ''Access-Control-Allow-Headers'' \<Longrightarrow>
         k \<noteq> ''Access-Control-Expose-Headers'' \<Longrightarrow>
         hget proxyRes_headers' k = hget proxyRes_headers k"
proof -
  define h3 where "h3 = hset (hdel (hdel proxyRes_headers ''set-cookie'') ''set-cookie2'')
                            ''x-final-url'' (href loc)"
  from assms have r: "res_headers' = res_headers" and p: "proxyRes_headers' = fst (withCORS h3 req)"
    by (simp_all add: relay_eq h3_def)
  show "res_headers' = res_headers" by (rule r)
  have "hget (fst (withCORS h3 req)) ''set-cookie'' = hget h3 ''set-cookie''"
    by (rule withCORS_other_header) simp_all
  then show "hget proxyRes_headers' ''set-cookie'' = None"
    by (simp add: p h3_def hget_hset hget_hdel)
  have "hget (fst (withCORS h3 req)) ''set-cookie2'' = hget h3 ''set-cookie2''"
    by (rule withCORS_other_header) simp_all
  then show "hget proxyRes_headers' ''set-cookie2'' = None"
    by (simp add: p h3_def hget_hset hget_hdel)
  show "hget proxyRes_headers' ''Access-Control-Allow-Origin'' = Some ''*''"
    by (simp add: p withCORS_allow_origin)
  have "hget (fst (withCORS h3 req)) ''x-final-url'' = hget h3 ''x-final-url''"
    by (rule withCORS_other_header) simp_all
  then show "hget proxyRes_headers' ''x-final-url'' = Some (href loc)"
    by (simp add: p h3_def hget_hset)
  show "hget proxyRes_headers' k = hget proxyRes_headers k"
    if "k \<noteq> ''set-cookie''" "k \<noteq> ''set-cookie2''" "k \<noteq> ''x-final-url''"
       "k \<noteq> ''Access-Control-Allow-Origin''" "k \<noteq> ''Access-Control-Max-Age''"
       "k \<noteq> ''Access-Control-Allow-Methods''" "k \<noteq> ''Access-Control-Allow-Headers''"
       "k \<noteq> ''Access-Control-Expose-Headers''"
  proof -
    have "hget (fst (withCORS h3 req)) k = hget h3 k"
      using that by (intro withCORS_other_header)
    then show ?thesis using that by (simp add: p h3_def hget_hset hget_hdel)
  qed
qed


lemma onProxyResponse_Throw:
  "location (corsAnywhereRequestState req) = None \<Longrightarrow>
   onProxyResponse env statusCode proxyRes_headers req res_headers = Throw"
  by (simp add: onProxyResponse_def)

lemma relay_not_Reissue [simp]: "relay req res_headers h loc \<noteq> Reissue req' res_headers'"
  by (simp add: relay_eq)

lemma relay_not_Throw [simp]: "relay req res_headers h loc \<noteq> Throw"
  by (simp add: relay_eq)

lemma redirect_target_cases:
  obtains (thrown) "redirect_target h = TypeError"
  | (undefined) locationHeader where "redirect_target h = Normal (locationHeader, None)"
  by (cases "truthy (hget h ''location'')") (simp_all add: redirect_target_def Let_def)

lemma onProxyResponse_cases:
  assumes loc: "location (corsAnywhereRequestState req) = Some loc"
  obtains
    (relayed)
      "onProxyResponse env statusCode h req res_headers
         = relay req (request_url_staged req loc res_headers) h loc"
  | (thrown) "onProxyResponse env statusCode h req res_headers = Throw"
proof (cases "statusCode = 301 \<or> statusCode = 302 \<or> statusCode = 303 \<or> statusCode = 307 \<or> statusCode = 308")
  case False
  with loc have "onProxyResponse env statusCode h req res_headers
         = relay req (request_url_staged req loc res_headers) h loc"
    by (simp add: onProxyResponse_def Let_def)
  then show thesis by (rule relayed)
next
  case redirect: True
  show thesis
  proof (cases h rule: redirect_target_cases)
    case thrown
    with loc redirect have "onProxyResponse env statusCode h req res_headers = Throw"
      by (simp add: onProxyResponse_def Let_def)
    then show thesis by (rule that(2))
  next
    case (undefined locationHeader)
    with loc redirect have "onProxyResponse env statusCode h req res_headers
         = relay req (request_url_staged req loc res_headers) h loc"
      by (simp add: onProxyResponse_def Let_def redirect_decision_def)
    then show thesis by (rule relayed)
  qed
qed

text \<open>As the program is written, no redirect is followed.\<close>

lemma onProxyResponse_never_reissues:
  "onProxyResponse env statusCode h req res_headers \<noteq> Reissue req' res_headers'"
proof (cases "location (corsAnywhereRequestState req)")
  case None
  then show ?thesis by (simp add: onProxyResponse_def)
next
  case (Some loc)
  then show ?thesis
    by (cases rule: onProxyResponse_cases[where env = env and statusCode = statusCode and h = h
          and res_headers = res_headers]) simp_all
qed

text \<open>A redirect with a \<open>Location\<close> that is not empty ends in the \<open>TypeError\<close> of line 196.\<close>

lemma onProxyResponse_location_throws:
  assumes "statusCode = 301 \<or> statusCode = 302 \<or> statusCode = 303 \<or> statusCode = 307 \<or> statusCode = 308"
    and "hget h ''location'' = Some l" and "l \<noteq> []"
  shows "onProxyResponse env statusCode h req res_headers = Throw"
proof (cases "location (corsAnywhereRequestState req)")
  case None
  then show ?thesis by (simp add: onProxyResponse_def)
next
  case (Some loc)
  have "redirect_target h = TypeError"
    using assms(2,3) by (simp add: redirect_target_def Let_def truthy_def)
  with Some assms(1) show ?thesis
    by (simp add: onProxyResponse_def Let_def)
qed

section \<open>The engine: what is relayed\<close>

declare proxyRequest.simps [simp del]

lemma proxyRequest_no_location:
  "location (corsAnywhereRequestState req) = None \<Longrightarrow> proxyRequest env up req res_headers = Some Uncaught"
  by (simp add: proxyRequest.simps)

lemma proxyRequest_Nil:
  "location (corsAnywhereRequestState req) = Some loc \<Longrightarrow> proxyRequest env [] req res_headers = None"
  by (simp add: proxyRequest.simps)

lemma proxyRequest_UpError:
  "location (corsAnywhereRequestState req) = Some loc \<Longrightarrow>
   proxyRequest env (UpError err # rest) req res_headers = onProxyError False res_headers err"
  by (simp add: proxyRequest.simps)

lemma proxyRequest_UpResponse:
  "location (corsAnywhereRequestState req) = Some loc \<Longrightarrow>
   proxyRequest env (UpResponse statusCode proxyRes_headers # rest) req res_headers =
     (case onProxyResponse env statusCode proxyRes_headers
             (req\<lparr>url := (if requestState.getProxyForUrl (corsAnywhereRequestState req) (href loc) \<noteq> []
                           then href loc else path loc)\<rparr>) res_headers of
        Reissue req2 res_headers2 \<Rightarrow> proxyRequest env rest req2 res_headers2
      | Relay req2 res_headers2 proxyRes_headers2 \<Rightarrow>
          Some (Relayed statusCode res_headers2 proxyRes_headers2)
      | Throw \<Rightarrow> Some Uncaught)"
  by (simp add: proxyRequest.simps Let_def)

lemma request_url_staged_url [simp]:
  "request_url_staged (req\<lparr>url := u\<rparr>) loc res_headers = request_url_staged req loc res_headers"
  by (simp add: request_url_staged_def)

lemma unstaged_request_url_staged:
  "unstaged k res_headers \<Longrightarrow> unstaged k (request_url_staged req loc res_headers)"
  by (simp add: unstaged_def request_url_staged_def res_setHeader_def hget_hset)

lemma unstaged_debug_header:
  assumes "unstaged k res_headers"
  shows "unstaged k (res_setHeader res_headers (''X-CORS-Redirect-'' @ name) v)"
proof -
  have t: "take 16 (''X-CORS-Redirect-'' @ name) = ''X-CORS-Redirect-''"
    by simp
  from assms have a: "hget res_headers k = None" "k \<noteq> ''x-request-url''"
    "take 16 k \<noteq> ''X-CORS-Redirect-''"
    unfolding unstaged_def by blast+
  have n: "k \<noteq> ''X-CORS-Redirect-'' @ name"
  proof
    assume "k = ''X-CORS-Redirect-'' @ name"
    with t have "take 16 k = ''X-CORS-Redirect-''" by (simp only:)
    with a(3) show False by blast
  qed
  have "hget (hset res_headers (''X-CORS-Redirect-'' @ name) v) k = hget res_headers k"
    using n by (simp only: hget_hset if_False)
  with a show ?thesis
    unfolding unstaged_def res_setHeader_def by (simp only: simp_thms)
qed

lemma proxyRequest_Relayed:
  assumes "proxyRequest env up req res_headers = Some (Relayed statusCode res_headers' proxyRes_headers')"
  shows "hget proxyRes_headers' ''set-cookie'' = None
       \<and> hget proxyRes_headers' ''set-cookie2'' = None
       \<and> hget proxyRes_headers' ''Access-Control-Allow-Origin'' = Some ''*''
       \<and> (unstaged k res_headers \<longrightarrow> unstaged k res_headers')"
  using assms
proof (induction up arbitrary: req res_headers)
  case Nil
  then show ?case
    by (cases "location (corsAnywhereRequestState req)")
       (simp_all add: proxyRequest_no_location proxyRequest_Nil)
next
  case (Cons ev rest)
  show ?case
  proof (cases "location (corsAnywhereRequestState req)")
    case None
    with Cons.prems show ?thesis by (simp add: proxyRequest_no_location)
  next
    case (Some loc)
    show ?thesis
    proof (cases ev)
      case (UpError err)
      with Cons.prems Some show ?thesis
        by (simp add: proxyRequest_UpError onProxyError_def)
    next
      case (UpResponse s h)
      define req1 where "req1 = req\<lparr>url := (if requestState.getProxyForUrl (corsAnywhereRequestState req) (href loc) \<noteq> []
                           then href loc else path loc)\<rparr>"
      have st1: "location (corsAnywhereRequestState req1) = Some loc"
        by (simp add: req1_def Some)
      have step: "proxyRequest env (ev # rest) req res_headers =
         (case onProxyResponse env s h req1 res_headers of
            Reissue req2 res_headers2 \<Rightarrow> proxyRequest env rest req2 res_headers2
          | Relay req2 res_headers2 proxyRes_headers2 \<Rightarrow> Some (Relayed s res_headers2 proxyRes_headers2)
          | Throw \<Rightarrow> Some Uncaught)"
        unfolding UpResponse req1_def by (rule proxyRequest_UpResponse[OF Some])
      from st1 show ?thesis
      proof (cases rule: onProxyResponse_cases[where env = env and statusCode = s and h = h and res_headers = res_headers])
        case relayed
        obtain req2 res2 h2 where r: "relay req1 (request_url_staged req1 loc res_headers) h loc = Relay req2 res2 h2"
          by (simp add: relay_eq)
        from Cons.prems step relayed r
        have eq: "statusCode = s" "res_headers' = res2" "proxyRes_headers' = h2"
          by simp_all
        from relay_headers(1-4)[OF r] unstaged_request_url_staged[of k res_headers req1 loc]
        show ?thesis
          unfolding eq by blast
      next
        case thrown
        with Cons.prems step show ?thesis by simp
      qed
    qed
  qed
qed

section \<open>The handler: case analysis\<close>

lemma showUsage_Response:
  assumes "showUsage env help_text help_file headers0 = Some out"
    and "hget headers0 ''Access-Control-Allow-Origin'' = Some ''*''"
  shows "\<exists>s b h. out = Response s None h b \<and> hget h ''Access-Control-Allow-Origin'' = Some ''*''"
proof -
  have "hget headers0 ''Access-Control-Allow-Origin'' = Some ''*'' \<longrightarrow>
        (\<exists>s b h. out = Response s None h b \<and> hget h ''Access-Control-Allow-Origin'' = Some ''*'')"
  proof (rule showUsage.raw_induct[where P = "\<lambda>env help_text help_file headers0 out.
        hget headers0 ''Access-Control-Allow-Origin'' = Some ''*'' \<longrightarrow>
        (\<exists>s b h. out = Response s None h b \<and> hget h ''Access-Control-Allow-Origin'' = Some ''*'')", OF _ assms(1)])
    fix showUsage' env' help_text' help_file' headers0' out'
    assume ih: "\<And>help_text help_file headers0 b y. showUsage' help_text help_file headers0 b = Some y \<Longrightarrow>
        hget b ''Access-Control-Allow-Origin'' = Some ''*'' \<longrightarrow>
        (\<exists>s ba h. y = Response s None h ba \<and> hget h ''Access-Control-Allow-Origin'' = Some ''*'')"
      and eq: "(if truthy (help_text' help_file')
      then Some
            (Response 200 None
              (hset headers0' ''content-type''
                (if drop (length help_file' - 5) help_file' = ''.html''
                 then ''text/html'' else ''text/plain''))
              (js_string (help_text' help_file')))
      else case readFile env' help_file' of
           None \<Rightarrow>
             Some
              (Response 500 None
                (hset headers0' ''content-type''
                  (if drop (length help_file' - 5) help_file' = ''.html''
                   then ''text/html'' else ''text/plain''))
                [])
           | Some data \<Rightarrow>
               showUsage' env' (help_text'(help_file' \<mapsto> data)) help_file'
                (hset headers0' ''content-type''
                  (if drop (length help_file' - 5) help_file' = ''.html''
                   then ''text/html'' else ''text/plain''))) =
     Some out'"
    define h1 where "h1 = hset headers0' ''content-type''
                (if drop (length help_file' - 5) help_file' = ''.html''
                 then ''text/html'' else ''text/plain'')"
    show "hget headers0' ''Access-Control-Allow-Origin'' = Some ''*'' \<longrightarrow>
        (\<exists>s b h. out' = Response s None h b \<and> hget h ''Access-Control-Allow-Origin'' = Some ''*'')"
    proof
      assume a: "hget headers0' ''Access-Control-Allow-Origin'' = Some ''*''"
      then have a1: "hget h1 ''Access-Control-Allow-Origin'' = Some ''*''"
        by (simp add: h1_def hget_hset)
      show "\<exists>s b h. out' = Response s None h b \<and> hget h ''Access-Control-Allow-Origin'' = Some ''*''"
      proof (cases "truthy (help_text' help_file')")
        case True
        with eq have "out' = Response 200 None h1 (js_string (help_text' help_file'))"
          by (simp add: h1_def)
        with a1 show ?thesis by blast
      next
        case False
        show ?thesis
        proof (cases "readFile env' help_file'")
          case None
          with eq False have "out' = Response 500 None h1 []"
            by (simp add: h1_def)
          with a1 show ?thesis by blast
        next
          case (Some data)
          with eq False have "showUsage' env' (help_text'(help_file' \<mapsto> data)) help_file' h1 = Some out'"
            by (simp add: h1_def)
          from ih[OF this] a1 show ?thesis by blast
        qed
      qed
    qed
  qed
  with assms(2) show ?thesis by blast
qed


lemma getHandler_origin_checks:
  assumes w: "withCORS [] (req0\<lparr>corsAnywhereRequestState := initialState options\<rparr>) = (cors_headers, req)"
    and c1: "req_method req \<noteq> ''OPTIONS''"
    and c2: "\<not> (case handleInitialRequest options of
                  None \<Rightarrow> False
                | Some hook \<Rightarrow> hook req (parseURL env (drop 1 (url req))))"
    and c3: "parseURL env (drop 1 (url req)) = Some loc"
    and c4: "host loc \<noteq> ''iscorsneeded''"
    and c5: "\<not> port_too_large loc"
    and c6: "\<not> (\<not> (startsWith (url req) ''/http:'' \<or> startsWith (url req) ''/https:'')
               \<and> \<not> isValidHostName env (hostname loc))"
    and c7: "hasRequiredHeaders (normalizeRequireHeader (requireHeader options)) (headers req)"
  shows "getHandler options env help_text up req0 =
     (if (case hget (headers req) ''origin'' of None \<Rightarrow> [] | Some v \<Rightarrow> v)
           \<in> set (originBlacklist options)
      then Some (Response 403 (Some ''Forbidden'') cors_headers
                   (''The origin '' @ [CHR 0x22]
                    @ (case hget (headers req) ''origin'' of None \<Rightarrow> [] | Some v \<Rightarrow> v)
                    @ [CHR 0x22] @ '' was blacklisted by the operator of this proxy.''))
      else if originWhitelist options \<noteq> []
              \<and> (case hget (headers req) ''origin'' of None \<Rightarrow> [] | Some v \<Rightarrow> v)
                  \<notin> set (originWhitelist options)
      then Some (Response 403 (Some ''Forbidden'') cors_headers
                   (''The origin '' @ [CHR 0x22]
                    @ (case hget (headers req) ''origin'' of None \<Rightarrow> [] | Some v \<Rightarrow> v)
                    @ [CHR 0x22] @ '' was not whitelisted by the operator of this proxy.''))
      else after_origin_checks options env up cors_headers req loc
             (case hget (headers req) ''origin'' of None \<Rightarrow> [] | Some v \<Rightarrow> v))"
proof -
  have c7': "\<not> \<not> hasRequiredHeaders (normalizeRequireHeader (requireHeader options)) (headers req)"
    using c7 by simp
  show ?thesis
    unfolding getHandler_def w prod.case Let_def after_origin_checks_def
      if_not_P[OF c1] if_not_P[OF c2]
    by (simp only: c3 option.case if_not_P[OF c4] if_not_P[OF c5] if_not_P[OF c6]
          if_not_P[OF c7'])
qed

lemma proxyRequest_Response:
  assumes "proxyRequest env up req res_headers = Some (Response s m h b)"
  shows "s = 404 \<and> m = None \<and> hget h ''Access-Control-Allow-Origin'' = Some ''*''"
  using assms
proof (induction up arbitrary: req res_headers)
  case Nil
  then show ?case
    by (cases "location (corsAnywhereRequestState req)")
       (simp_all add: proxyRequest_no_location proxyRequest_Nil)
next
  case (Cons ev rest)
  show ?case
  proof (cases "location (corsAnywhereRequestState req)")
    case None
    with Cons.prems show ?thesis by (simp add: proxyRequest_no_location)
  next
    case (Some loc)
    show ?thesis
    proof (cases ev)
      case (UpError err)
      with Cons.prems Some show ?thesis
        by (auto simp add: proxyRequest_UpError onProxyError_def hget_hset)
    next
      case (UpResponse sc ph)
      define req1 where "req1 = req\<lparr>url := (if requestState.getProxyForUrl (corsAnywhereRequestState req) (href loc) \<noteq> []
                           then href loc else path loc)\<rparr>"
      have st1: "location (corsAnywhereRequestState req1) = Some loc"
        by (simp add: req1_def Some)
      have step: "proxyRequest env (ev # rest) req res_headers =
         (case onProxyResponse env sc ph req1 res_headers of
            Reissue req2 res_headers2 \<Rightarrow> proxyRequest env rest req2 res_headers2
          | Relay req2 res_headers2 proxyRes_headers2 \<Rightarrow> Some (Relayed sc res_headers2 proxyRes_headers2)
          | Throw \<Rightarrow> Some Uncaught)"
        unfolding UpResponse req1_def by (rule proxyRequest_UpResponse[OF Some])
      from st1 show ?thesis
      proof (cases rule: onProxyResponse_cases[where env = env and statusCode = sc and h = ph and res_headers = res_headers])
        case relayed
        with Cons.prems step show ?thesis
          by (simp add: relay_eq)
      next
        case thrown
        with Cons.prems step show ?thesis by simp
      qed
    qed
  qed
qed

lemma after_origin_checks_cases:
  assumes out: "after_origin_checks options env up ch req loc origin = Some out"
    and ch: "hget ch ''Access-Control-Allow-Origin'' = Some ''*''"
  obtains
    (direct) s m h b where "out = Response s m h b"
      "hget h ''Access-Control-Allow-Origin'' = Some ''*''" "s = 429 \<or> s = 301"
  | (proxied) r where "proxyRequest env up r [] = Some out"
proof -
  note body = out[unfolded after_origin_checks_def Let_def]
  show thesis
  proof (cases "(case checkRateLimit options of None \<Rightarrow> [] | Some limit \<Rightarrow> limit origin) \<noteq> []")
    case True
    from body[unfolded if_P[OF True]] have "\<exists>b. out = Response 429 (Some ''Too Many Requests'') ch b"
      by auto
    with ch show thesis using direct by blast
  next
    case c10: False
    note body1 = body[unfolded if_not_P[OF c10]]
    show thesis
    proof (cases "redirectSameOrigin options \<and> origin \<noteq> []
                 \<and> length origin < length (href loc)
                 \<and> href loc ! length origin = CHR ''/''
                 \<and> startsWith (href loc) origin")
      case True
      from body1[unfolded if_P[OF True]]
      have o: "out = Response 301 (Some ''Please use a direct request'')
                      (hset (hset (hset ch ''consty'' ''origin'') ''cache-control'' ''private'')
                         ''location'' (href loc)) []"
        by simp
      have "hget (hset (hset (hset ch ''consty'' ''origin'') ''cache-control'' ''private'')
                         ''location'' (href loc)) ''Access-Control-Allow-Origin'' = Some ''*''"
        by (simp add: hget_hset ch)
      with o show thesis using direct by blast
    next
      case False
      from body1[unfolded if_not_P[OF False]] show thesis by (rule proxied)
    qed
  qed
qed

lemma getHandler_cases:
  assumes out: "getHandler options env help_text up req0 = Some out"
  obtains
    (direct) s m h b where "out = Response s m h b" "hget h ''Access-Control-Allow-Origin'' = Some ''*''"
  | (selftest) loc where "out = Response 200 None [(''Content-Type'', ''text/plain'')] ''no''"
      "parseURL env (drop 1 (url req0)) = Some loc" "host loc = ''iscorsneeded''"
      "req_method req0 \<noteq> ''OPTIONS''"
  | (claimed) "out = Claimed"
  | (proxied) req where "proxyRequest env up req [] = Some out"
proof -
  obtain ch req where w: "withCORS [] (req0\<lparr>corsAnywhereRequestState := initialState options\<rparr>) = (ch, req)"
    by (cases "withCORS [] (req0\<lparr>corsAnywhereRequestState := initialState options\<rparr>)")
  have ch: "hget ch ''Access-Control-Allow-Origin'' = Some ''*''"
    using withCORS_allow_origin[of "[]" "req0\<lparr>corsAnywhereRequestState := initialState options\<rparr>"]
    by (simp add: w)
  have rq: "req_method req = req_method req0" "url req = url req0"
    using withCORS_request(1,2)[of "[]" "req0\<lparr>corsAnywhereRequestState := initialState options\<rparr>"]
    by (simp_all add: w)
  note body = out[unfolded getHandler_def w prod.case Let_def]
  show thesis
  proof (cases "req_method req = ''OPTIONS''")
    case True
    from body[unfolded if_P[OF True]] have "out = Response 200 None ch []" by simp
    from this ch show thesis by (rule direct)
  next
    case c1: False
    note body1 = body[unfolded if_not_P[OF c1]]
    show thesis
    proof (cases "case handleInitialRequest options of None \<Rightarrow> False
                  | Some hook \<Rightarrow> hook req (parseURL env (drop 1 (url req)))")
      case True
      from body1[unfolded if_P[OF True]] have "out = Claimed" by simp
      then show thesis by (rule claimed)
    next
      case c2: False
      note body2 = body1[unfolded if_not_P[OF c2]]
      show thesis
      proof (cases "parseURL env (drop 1 (url req))")
        case None
        note body3 = body2[unfolded None option.case]
        show thesis
        proof (cases "missing_slash (url req)")
          case True
          from body3[unfolded if_P[OF True]] have "out = Response 400 (Some ''Missing slash'') ch
              ''The URL is invalid: two slashes are needed after the http(s):.''"
            by simp
          from this ch show thesis by (rule direct)
        next
          case False
          from body3[unfolded if_not_P[OF False]]
          have "showUsage env help_text (helpFile options) ch = Some out" .
          from showUsage_Response[OF this ch] show thesis using direct by blast
        qed
      next
        case (Some loc)
        show thesis
        proof (cases "host loc = ''iscorsneeded''")
          case True
          from body2[unfolded Some option.case if_P[OF True]]
          have "out = Response 200 None [(''Content-Type'', ''text/plain'')] ''no''"
            by simp
          with Some True c1 show thesis using selftest[of loc] by (simp add: rq)
        next
          case c4: False
          show thesis
          proof (cases "port_too_large loc")
            case True
            from body2[unfolded Some option.case if_not_P[OF c4] if_P[OF True]]
            have "out = Response 400 (Some ''Invalid port'') ch
                (''Port number too large: '' @ js_string (port loc))"
              by simp
            from this ch show thesis by (rule direct)
          next
            case c5: False
            show thesis
            proof (cases "\<not> (startsWith (url req) ''/http:'' \<or> startsWith (url req) ''/https:'')
                              \<and> \<not> isValidHostName env (hostname loc)")
              case True
              from body2[unfolded Some option.case if_not_P[OF c4] if_not_P[OF c5] if_P[OF True]]
              have "out = Response 404 (Some ''Invalid host'') ch (''Invalid host: '' @ hostname loc)"
                by simp
              from this ch show thesis by (rule direct)
            next
              case c6: False
              show thesis
              proof (cases "hasRequiredHeaders (normalizeRequireHeader (requireHeader options)) (headers req)")
                case False
                from body2[unfolded Some option.case if_not_P[OF c4] if_not_P[OF c5] if_not_P[OF c6] if_P[OF False]]
                have "\<exists>b. out = Response 400 (Some ''Header required'') ch b"
                  by auto
                with ch show thesis using direct by blast
              next
                case c7: True
                define origin where "origin = (case hget (headers req) ''origin'' of None \<Rightarrow> [] | Some v \<Rightarrow> v)"
                note oc = out[unfolded getHandler_origin_checks[OF w c1 c2 Some c4 c5 c6 c7], folded origin_def]
                show thesis
                proof (cases "origin \<in> set (originBlacklist options)")
                  case True
                  from oc[unfolded if_P[OF True]] have "\<exists>b. out = Response 403 (Some ''Forbidden'') ch b"
                    by auto
                  with ch show thesis using direct by blast
                next
                  case c8: False
                  show thesis
                  proof (cases "originWhitelist options \<noteq> [] \<and> origin \<notin> set (originWhitelist options)")
                    case True
                    from oc[unfolded if_not_P[OF c8] if_P[OF True]]
                    have "\<exists>b. out = Response 403 (Some ''Forbidden'') ch b"
                      by auto
                    with ch show thesis using direct by blast
                  next
                    case c9: False
                    from oc[unfolded if_not_P[OF c8] if_not_P[OF c9]]
                    have "after_origin_checks options env up ch req loc origin = Some out" .
                    from this ch show thesis
                    proof (cases rule: after_origin_checks_cases)
                      case (direct s m h b)
                      then show ?thesis using that(1) by blast
                    next
                      case (proxied r)
                      then show ?thesis by (rule that(4))
                    qed
                  qed
                qed
              qed
            qed
          qed
        qed
      qed
    qed
  qed
qed

section \<open>The redirect follower with its two declarations repaired\<close>

text \<open>
  What lines 199 to 239 do for a status of 307 or 308 once \<open>locationHeader\<close> and
  \<open>parsedLocation\<close> can be assigned: the response is relayed, whatever the count of
  redirects, and its \<open>Location\<close> is the proxy's base URL, a slash and the \<open>Location\<close> of the
  upstream resolved against the current target.
\<close>

lemma onProxyResponse_let_307_308:
  assumes "statusCode = 307 \<or> statusCode = 308"
    and "location (corsAnywhereRequestState req) = Some loc"
    and "hget proxyRes_headers ''location'' = Some l"
    and "l \<noteq> []"
    and "parseURL env (url_resolve env (href loc) l) = Some parsedLocation"
  shows "\<exists>req' proxyRes_headers'.
           onProxyResponse_let env statusCode proxyRes_headers req res_headers
             = Relay req' (request_url_staged req loc res_headers) proxyRes_headers'
           \<and> hget proxyRes_headers' ''location''
               = Some (js_string (proxyBaseUrl (corsAnywhereRequestState req)) @ ''/''
                       @ url_resolve env (href loc) l)"
proof -
  define rewritten where "rewritten = hset proxyRes_headers ''location''
      (js_string (proxyBaseUrl (corsAnywhereRequestState req)) @ ''/''
       @ url_resolve env (href loc) l)"
  define h3 where "h3 = hset (hdel (hdel rewritten ''set-cookie'') ''set-cookie2'')
                            ''x-final-url'' (href loc)"
  have t: "redirect_target_let env loc proxyRes_headers
             = (Some (url_resolve env (href loc) l), Some parsedLocation)"
    using assms(3,4,5) by (simp add: redirect_target_let_def)
  have s: "\<not> (statusCode = 301 \<or> statusCode = 302 \<or> statusCode = 303)"
    using assms(1) by auto
  have o: "onProxyResponse_let env statusCode proxyRes_headers req res_headers
             = relay req (request_url_staged req loc res_headers) rewritten loc"
    using assms(1)
  proof
    assume "statusCode = 307"
    with assms(2) t show ?thesis
      by (simp add: onProxyResponse_let_def redirect_decision_def Let_def rewritten_def
            js_string_def)
  next
    assume "statusCode = 308"
    with assms(2) t show ?thesis
      by (simp add: onProxyResponse_let_def redirect_decision_def Let_def rewritten_def
            js_string_def)
  qed
  have r: "relay req (request_url_staged req loc res_headers) rewritten loc
      = Relay (snd (withCORS h3 req)) (request_url_staged req loc res_headers)
          (fst (withCORS h3 req))"
    by (simp add: relay_eq h3_def)
  have "hget (fst (withCORS h3 req)) ''location'' = hget rewritten ''location''"
    by (rule relay_headers(6)[OF r]) simp_all
  then have l: "hget (fst (withCORS h3 req)) ''location''
      = Some (js_string (proxyBaseUrl (corsAnywhereRequestState req)) @ ''/''
              @ url_resolve env (href loc) l)"
    by (simp add: rewritten_def hget_hset)
  from o r l show ?thesis
    by (intro exI[of _ "snd (withCORS h3 req)"] exI[of _ "fst (withCORS h3 req)"]) simp
qed

section \<open>Claims about the redirect follower\<close>

text \<open>
  C3. As the program is written, an upstream response with status 307 or 308 and a
  \<open>Location\<close> that is not empty is not relayed and its \<open>Location\<close> is not rewritten:
  line 196 assigns to the constant \<open>locationHeader\<close>, \<open>onProxyResponse\<close> leaves with a
  \<open>TypeError\<close> before line 199, and the engine sends the client nothing, whatever the
  \<open>Location\<close> resolves to and whatever the count of redirects.
\<close>

theorem redirect_307_308_throws:
  assumes "statusCode = 307 \<or> statusCode = 308"
    and "hget proxyRes_headers ''location'' = Some l"
    and "l \<noteq> []"
  shows "onProxyResponse env statusCode proxyRes_headers req res_headers = Throw
       \<and> proxyRequest env (UpResponse statusCode proxyRes_headers # rest) req res_headers
           = Some Uncaught"
proof -
  have s: "statusCode = 301 \<or> statusCode = 302 \<or> statusCode = 303
           \<or> statusCode = 307 \<or> statusCode = 308"
    using assms(1) by blast
  have o: "onProxyResponse env statusCode proxyRes_headers r res_headers = Throw" for r
    by (rule onProxyResponse_location_throws[OF s assms(2,3)])
  show ?thesis
  proof (cases "location (corsAnywhereRequestState req)")
    case None
    with o show ?thesis by (simp add: proxyRequest_no_location)
  next
    case (Some loc)
    show ?thesis
      unfolding proxyRequest_UpResponse[OF Some] o by simp
  qed
qed

text \<open>
  C3 at a 307 from \<open>http://a.example.com/\<close> to \<open>http://b.example.com/next\<close>, received by a
  proxy at \<open>http://proxy.example\<close> whose request state counts two redirects.
\<close>

theorem redirect_307_308_throws_witness:
  "onProxyResponse plain_node 307 [(''location'', ''http://b.example.com/next'')]
       ((incoming ''POST'' ''/http://a.example.com/'' [])
          \<lparr>corsAnywhereRequestState :=
             (initialState default_options)
               \<lparr>location := Some (plain_url_parse ''http://a.example.com/''),
                proxyBaseUrl := Some ''http://proxy.example'',
                redirectCount := Some 2\<rparr>\<rparr>) []
     = Throw
   \<and> proxyRequest plain_node
       [UpResponse 307 [(''location'', ''http://b.example.com/next'')]]
       ((incoming ''POST'' ''/http://a.example.com/'' [])
          \<lparr>corsAnywhereRequestState :=
             (initialState default_options)
               \<lparr>location := Some (plain_url_parse ''http://a.example.com/''),
                proxyBaseUrl := Some ''http://proxy.example'',
                redirectCount := Some 2\<rparr>\<rparr>) []
     = Some Uncaught"
proof -
  have a: "(307::nat) = 307 \<or> (307::nat) = 308" by simp
  have b: "hget [(''location'', ''http://b.example.com/next'')] ''location''
             = Some ''http://b.example.com/next''"
    by code_simp
  have c: "''http://b.example.com/next'' \<noteq> []" by simp
  from redirect_307_308_throws[OF a b c] show ?thesis by blast
qed

text \<open>
  The same response for a request the handler has received: a \<open>POST\<close> for
  \<open>http://a.example.com/\<close> whose upstream answers 307 is left without a response.
\<close>

lemma redirect_307_handler_example:
  "getHandler default_options plain_node Map.empty
       [UpResponse 307 [(''location'', ''http://b.example.com/next'')]]
       (incoming ''POST'' ''/http://a.example.com/'' [(''host'', ''proxy.example'')])
     = Some Uncaught"
  by code_simp

text \<open>
  C2. As the program is written, a chain of redirects is not followed and its last
  response is not relayed. With the default of five redirects, an upstream that answers
  302 once and then 200 leaves the client without a response: the first 302 stops
  \<open>onProxyResponse\<close> at line 196, so no \<open>X-CORS-Redirect-1\<close> is staged and the 200 is never
  asked for. With one redirect allowed and an upstream that answers 302 twice, the client
  is not sent a redirect with a rewritten \<open>Location\<close> either.
\<close>

theorem redirect_chain_uncaught:
  "getHandler default_options plain_node Map.empty
       [UpResponse 302 [(''location'', ''http://b.example.com/'')],
        UpResponse 200 [(''content-type'', ''text/plain'')]]
       (incoming ''GET'' ''/http://a.example.com/'' [(''host'', ''proxy.example'')])
     = Some Uncaught
   \<and> getHandler (default_options\<lparr>corsAnywhere.maxRedirects := 1\<rparr>) plain_node Map.empty
       [UpResponse 302 [(''location'', ''http://b.example.com/'')],
        UpResponse 302 [(''location'', ''http://c.example.com/'')],
        UpResponse 200 [(''content-type'', ''text/plain'')]]
       (incoming ''GET'' ''/http://a.example.com/'' [(''host'', ''proxy.example'')])
     = Some Uncaught"
  by code_simp

section \<open>Claims about the responses\<close>

text \<open>
  C1, as amended. Every response the handler writes carries
  \<open>Access-Control-Allow-Origin: *\<close>, except the reply to the self-test (a request other
  than \<open>OPTIONS\<close> for the host \<open>iscorsneeded\<close>: 200, \<open>Content-Type: text/plain\<close>, body
  \<open>no\<close>). So do the headers of every upstream response the handler has relayed, and every
  response the listener of the engine's \<open>error\<close> event writes.
\<close>

theorem responses_allow_origin:
  "(getHandler options env help_text up req = Some (Response s m h b) \<longrightarrow>
      hget h ''Access-Control-Allow-Origin'' = Some ''*''
      \<or> (Response s m h b = Response 200 None [(''Content-Type'', ''text/plain'')] ''no''
         \<and> req_method req \<noteq> ''OPTIONS''
         \<and> (\<exists>loc. parseURL env (drop 1 (url req)) = Some loc \<and> host loc = ''iscorsneeded'')))
   \<and> (getHandler options env help_text up req = Some (Relayed s' res_headers proxyRes_headers) \<longrightarrow>
      hget proxyRes_headers ''Access-Control-Allow-Origin'' = Some ''*'')
   \<and> (onProxyError headersSent res_headers' err = Some (Response s'' m'' h'' b'') \<longrightarrow>
      hget h'' ''Access-Control-Allow-Origin'' = Some ''*'')"
proof (intro conjI impI)
  assume a: "getHandler options env help_text up req = Some (Response s m h b)"
  from a show "hget h ''Access-Control-Allow-Origin'' = Some ''*''
      \<or> (Response s m h b = Response 200 None [(''Content-Type'', ''text/plain'')] ''no''
         \<and> req_method req \<noteq> ''OPTIONS''
         \<and> (\<exists>loc. parseURL env (drop 1 (url req)) = Some loc \<and> host loc = ''iscorsneeded''))"
  proof (cases rule: getHandler_cases)
    case (direct s0 m0 h0 b0)
    then show ?thesis by simp
  next
    case (selftest loc)
    then show ?thesis by blast
  next
    case claimed
    then show ?thesis by simp
  next
    case (proxied r)
    from proxyRequest_Response[OF this] show ?thesis by simp
  qed
next
  assume a: "getHandler options env help_text up req = Some (Relayed s' res_headers proxyRes_headers)"
  from a show "hget proxyRes_headers ''Access-Control-Allow-Origin'' = Some ''*''"
  proof (cases rule: getHandler_cases)
    case (direct s0 m0 h0 b0)
    then show ?thesis by simp
  next
    case (selftest loc)
    then show ?thesis by simp
  next
    case claimed
    then show ?thesis by simp
  next
    case (proxied r)
    from proxyRequest_Relayed[OF this] show ?thesis by simp
  qed
next
  assume "onProxyError headersSent res_headers' err = Some (Response s'' m'' h'' b'')"
  then show "hget h'' ''Access-Control-Allow-Origin'' = Some ''*''"
    by (auto simp: onProxyError_def hget_hset split: if_splits)
qed

text \<open>
  C1, as amended, at a request for \<open>/favicon.ico\<close> (404), at a relayed response and at
  a failure of the engine.
\<close>

theorem responses_allow_origin_witness:
  "getHandler default_options plain_node Map.empty [] (incoming ''GET'' ''/favicon.ico'' [])
     = Some (Response 404 (Some ''Invalid host'')
               [(''Access-Control-Allow-Origin'', ''*''),
                (''Access-Control-Expose-Headers'', ''Access-Control-Allow-Origin'')]
               ''Invalid host: favicon.ico'')
   \<and> hget [(''Access-Control-Allow-Origin'', ''*''),
            (''Access-Control-Expose-Headers'', ''Access-Control-Allow-Origin'')]
        ''Access-Control-Allow-Origin'' = Some ''*''
   \<and> getHandler default_options plain_node Map.empty
       [UpResponse 200 [(''content-type'', ''text/plain'')]]
       (incoming ''GET'' ''/http://example.com/x'' [(''host'', ''proxy.example'')])
     = Some (Relayed 200 [(''x-request-url'', ''http://example.com/x'')]
               [(''content-type'', ''text/plain''), (''x-final-url'', ''http://example.com/x''),
                (''Access-Control-Allow-Origin'', ''*''),
                (''Access-Control-Expose-Headers'',
                 ''content-type,x-final-url,Access-Control-Allow-Origin'')])
   \<and> hget [(''content-type'', ''text/plain''), (''x-final-url'', ''http://example.com/x''),
            (''Access-Control-Allow-Origin'', ''*''),
            (''Access-Control-Expose-Headers'',
             ''content-type,x-final-url,Access-Control-Allow-Origin'')]
        ''Access-Control-Allow-Origin'' = Some ''*''
   \<and> onProxyError False [(''x-request-url'', ''http://example.com/x'')] ''Error: socket hang up''
     = Some (Response 404 None [(''Access-Control-Allow-Origin'', ''*'')]
               ''Not found because of proxy error: Error: socket hang up'')
   \<and> hget [(''Access-Control-Allow-Origin'', ''*'')] ''Access-Control-Allow-Origin'' = Some ''*''"
proof -
  have e1: "getHandler default_options plain_node Map.empty [] (incoming ''GET'' ''/favicon.ico'' [])
     = Some (Response 404 (Some ''Invalid host'')
               [(''Access-Control-Allow-Origin'', ''*''),
                (''Access-Control-Expose-Headers'', ''Access-Control-Allow-Origin'')]
               ''Invalid host: favicon.ico'')"
    by code_simp
  have e2: "getHandler default_options plain_node Map.empty
       [UpResponse 200 [(''content-type'', ''text/plain'')]]
       (incoming ''GET'' ''/http://example.com/x'' [(''host'', ''proxy.example'')])
     = Some (Relayed 200 [(''x-request-url'', ''http://example.com/x'')]
               [(''content-type'', ''text/plain''), (''x-final-url'', ''http://example.com/x''),
                (''Access-Control-Allow-Origin'', ''*''),
                (''Access-Control-Expose-Headers'',
                 ''content-type,x-final-url,Access-Control-Allow-Origin'')])"
    by code_simp
  have e3: "onProxyError False [(''x-request-url'', ''http://example.com/x'')] ''Error: socket hang up''
     = Some (Response 404 None [(''Access-Control-Allow-Origin'', ''*'')]
               ''Not found because of proxy error: Error: socket hang up'')"
    by code_simp
  have n: "Response 404 (Some ''Invalid host'')
               [(''Access-Control-Allow-Origin'', ''*''),
                (''Access-Control-Expose-Headers'', ''Access-Control-Allow-Origin'')]
               ''Invalid host: favicon.ico''
           \<noteq> Response 200 None [(''Content-Type'', ''text/plain'')] ''no''"
    by simp
  from responses_allow_origin[of default_options plain_node Map.empty "[]"
      "incoming ''GET'' ''/favicon.ico'' []" 404 "Some ''Invalid host''" _ _ 200 _ _ False _ _ 404 None]
    e1 n
  have a1: "hget [(''Access-Control-Allow-Origin'', ''*''),
            (''Access-Control-Expose-Headers'', ''Access-Control-Allow-Origin'')]
        ''Access-Control-Allow-Origin'' = Some ''*''"
    by blast
  from responses_allow_origin[of default_options plain_node Map.empty
      "[UpResponse 200 [(''content-type'', ''text/plain'')]]"
      "incoming ''GET'' ''/http://example.com/x'' [(''host'', ''proxy.example'')]"] e2
  have a2: "hget [(''content-type'', ''text/plain''), (''x-final-url'', ''http://example.com/x''),
            (''Access-Control-Allow-Origin'', ''*''),
            (''Access-Control-Expose-Headers'',
             ''content-type,x-final-url,Access-Control-Allow-Origin'')]
        ''Access-Control-Allow-Origin'' = Some ''*''"
    by blast
  from responses_allow_origin[where headersSent = False
      and res_headers' = "[(''x-request-url'', ''http://example.com/x'')]"
      and err = "''Error: socket hang up''"] e3
  have a3: "hget [(''Access-Control-Allow-Origin'', ''*'')] ''Access-Control-Allow-Origin'' = Some ''*''"
    by blast
  from e1 e2 e3 a1 a2 a3 show ?thesis by (intro conjI)
qed

text \<open>
  C1, as stated, fails: the reply to \<open>GET /iscorsneeded\<close> has the one header
  \<open>Content-Type\<close> (line 356).
\<close>

theorem self_test_counterexample:
  "getHandler default_options plain_node Map.empty [] (incoming ''GET'' ''/iscorsneeded'' [])
     = Some (Response 200 None [(''Content-Type'', ''text/plain'')] ''no'')
   \<and> hget [(''Content-Type'', ''text/plain'')] ''Access-Control-Allow-Origin'' = None"
  by code_simp

text \<open>
  C5. Whenever the engine is left to relay an upstream response, \<open>proxyRes.headers\<close> holds
  neither \<open>set-cookie\<close> nor \<open>set-cookie2\<close>, whatever the upstream sent; for a request that
  came through the handler, the headers staged on the client's response hold neither as well.
\<close>

theorem relayed_without_cookies:
  "(proxyRequest env up req res_headers = Some (Relayed s res_headers' proxyRes_headers') \<longrightarrow>
      hget proxyRes_headers' ''set-cookie'' = None \<and> hget proxyRes_headers' ''set-cookie2'' = None)
   \<and> (getHandler options env help_text up req0 = Some (Relayed s0 res_headers0 proxyRes_headers0) \<longrightarrow>
      hget proxyRes_headers0 ''set-cookie'' = None \<and> hget proxyRes_headers0 ''set-cookie2'' = None
      \<and> hget res_headers0 ''set-cookie'' = None \<and> hget res_headers0 ''set-cookie2'' = None)"
proof (intro conjI impI)
  assume a: "proxyRequest env up req res_headers = Some (Relayed s res_headers' proxyRes_headers')"
  from proxyRequest_Relayed[OF a]
  show "hget proxyRes_headers' ''set-cookie'' = None" "hget proxyRes_headers' ''set-cookie2'' = None"
    by blast+
next
  assume a: "getHandler options env help_text up req0 = Some (Relayed s0 res_headers0 proxyRes_headers0)"
  have r: "\<exists>r. proxyRequest env up r [] = Some (Relayed s0 res_headers0 proxyRes_headers0)"
    using a
  proof (cases rule: getHandler_cases)
    case (proxied r)
    then show ?thesis by blast
  qed simp_all
  then obtain r where r: "proxyRequest env up r [] = Some (Relayed s0 res_headers0 proxyRes_headers0)" ..
  have u1: "unstaged ''set-cookie'' []" by (simp add: unstaged_def hget_def)
  have u2: "unstaged ''set-cookie2'' []" by (simp add: unstaged_def hget_def)
  from proxyRequest_Relayed[OF r, of "''set-cookie''"] u1
  show "hget proxyRes_headers0 ''set-cookie'' = None" "hget proxyRes_headers0 ''set-cookie2'' = None"
    "hget res_headers0 ''set-cookie'' = None"
    unfolding unstaged_def by blast+
  from proxyRequest_Relayed[OF r, of "''set-cookie2''"] u2
  show "hget res_headers0 ''set-cookie2'' = None"
    unfolding unstaged_def by blast
qed

text \<open>C5 at an upstream response that sets both cookies.\<close>

theorem relayed_without_cookies_witness:
  "getHandler default_options plain_node Map.empty
       [UpResponse 200 [(''set-cookie'', ''a=b''), (''content-type'', ''text/plain''),
                        (''set-cookie2'', ''c=d'')]]
       (incoming ''GET'' ''/http://example.com/x'' [(''host'', ''proxy.example'')])
     = Some (Relayed 200 [(''x-request-url'', ''http://example.com/x'')]
               [(''content-type'', ''text/plain''), (''x-final-url'', ''http://example.com/x''),
                (''Access-Control-Allow-Origin'', ''*''),
                (''Access-Control-Expose-Headers'',
                 ''content-type,x-final-url,Access-Control-Allow-Origin'')])
   \<and> hget [(''content-type'', ''text/plain''), (''x-final-url'', ''http://example.com/x''),
            (''Access-Control-Allow-Origin'', ''*''),
            (''Access-Control-Expose-Headers'',
             ''content-type,x-final-url,Access-Control-Allow-Origin'')] ''set-cookie'' = None
   \<and> hget [(''content-type'', ''text/plain''), (''x-final-url'', ''http://example.com/x''),
            (''Access-Control-Allow-Origin'', ''*''),
            (''Access-Control-Expose-Headers'',
             ''content-type,x-final-url,Access-Control-Allow-Origin'')] ''set-cookie2'' = None"
proof -
  have e: "getHandler default_options plain_node Map.empty
       [UpResponse 200 [(''set-cookie'', ''a=b''), (''content-type'', ''text/plain''),
                        (''set-cookie2'', ''c=d'')]]
       (incoming ''GET'' ''/http://example.com/x'' [(''host'', ''proxy.example'')])
     = Some (Relayed 200 [(''x-request-url'', ''http://example.com/x'')]
               [(''content-type'', ''text/plain''), (''x-final-url'', ''http://example.com/x''),
                (''Access-Control-Allow-Origin'', ''*''),
                (''Access-Control-Expose-Headers'',
                 ''content-type,x-final-url,Access-Control-Allow-Origin'')])"
    by code_simp
  from relayed_without_cookies[where options = default_options and env = plain_node
      and help_text = Map.empty
      and up = "[UpResponse 200 [(''set-cookie'', ''a=b''), (''content-type'', ''text/plain''),
                        (''set-cookie2'', ''c=d'')]]"
      and ?req0.0 = "incoming ''GET'' ''/http://example.com/x'' [(''host'', ''proxy.example'')]"] e
  show ?thesis by blast
qed

section \<open>Claims about the origin checks\<close>

lemma handler_request_origin:
  assumes "withCORS [] r = (cors_headers, req)"
  shows "hget (headers req) ''origin'' = hget (headers r) ''origin''"
proof -
  have "hget (headers (snd (withCORS [] r))) ''origin'' = hget (headers r) ''origin''"
    by (rule withCORS_request_headers) simp_all
  with assms show ?thesis by simp
qed

text \<open>
  C6. \<open>cors_headers\<close> and \<open>req\<close> are what \<open>withCORS\<close> returns at the top of the handler.
  For every request that reaches the origin checks (it is not a pre-flight request, the
  hook does not take it, its URL parses, its host is not \<open>iscorsneeded\<close>, its port is not
  too large, its host is valid or its URL starts with a protocol, and it has a required
  header) and whose \<open>Origin\<close> is in the blacklist and in the whitelist, the handler
  answers 403 \<open>Forbidden\<close> with the body of the blacklist check.
\<close>

theorem blacklist_before_whitelist:
  assumes "withCORS [] (req0\<lparr>corsAnywhereRequestState := initialState options\<rparr>) = (cors_headers, req)"
    and "req_method req \<noteq> ''OPTIONS''"
    and "\<not> (case handleInitialRequest options of
              None \<Rightarrow> False
            | Some hook \<Rightarrow> hook req (parseURL env (drop 1 (url req))))"
    and "parseURL env (drop 1 (url req)) = Some loc"
    and "host loc \<noteq> ''iscorsneeded''"
    and "\<not> port_too_large loc"
    and "\<not> (\<not> (startsWith (url req) ''/http:'' \<or> startsWith (url req) ''/https:'')
            \<and> \<not> isValidHostName env (hostname loc))"
    and "hasRequiredHeaders (normalizeRequireHeader (requireHeader options)) (headers req)"
    and "hget (headers req0) ''origin'' = Some origin"
    and "origin \<in> set (originBlacklist options)"
    and "origin \<in> set (originWhitelist options)"
  shows "getHandler options env help_text up req0
     = Some (Response 403 (Some ''Forbidden'') cors_headers
               (''The origin '' @ [CHR 0x22] @ origin @ [CHR 0x22]
                @ '' was blacklisted by the operator of this proxy.''))"
proof -
  have o: "hget (headers req) ''origin'' = Some origin"
    using handler_request_origin[OF assms(1)] assms(9) by simp
  show ?thesis
    unfolding getHandler_origin_checks[OF assms(1-8)] o option.case
    using assms(10) by (simp only: if_True)
qed

text \<open>C6 at an origin that the operator has put in both lists.\<close>

theorem blacklist_before_whitelist_witness:
  "getHandler
     (default_options\<lparr>originBlacklist := [''http://evil.example''],
                       originWhitelist := [''http://good.example'', ''http://evil.example'']\<rparr>)
     plain_node Map.empty [] (incoming ''GET'' ''/http://example.com/'' [(''origin'', ''http://evil.example'')])
   = Some (Response 403 (Some ''Forbidden'')
             [(''Access-Control-Allow-Origin'', ''*''),
              (''Access-Control-Expose-Headers'', ''Access-Control-Allow-Origin'')]
             (''The origin '' @ [CHR 0x22] @ ''http://evil.example'' @ [CHR 0x22]
              @ '' was blacklisted by the operator of this proxy.''))"
proof -
  define options where "options = default_options\<lparr>originBlacklist := [''http://evil.example''],
                       originWhitelist := [''http://good.example'', ''http://evil.example'']\<rparr>"
  define req0 where "req0 = incoming ''GET'' ''/http://example.com/'' [(''origin'', ''http://evil.example'')]"
  define w where "w = withCORS [] (req0\<lparr>corsAnywhereRequestState := initialState options\<rparr>)"
  have w: "withCORS [] (req0\<lparr>corsAnywhereRequestState := initialState options\<rparr>) = (fst w, snd w)"
    by (simp add: w_def)
  have f: "fst w = [(''Access-Control-Allow-Origin'', ''*''),
              (''Access-Control-Expose-Headers'', ''Access-Control-Allow-Origin'')]"
    unfolding w_def req0_def options_def by code_simp
  have c1: "req_method (snd w) \<noteq> ''OPTIONS''"
    unfolding w_def req0_def options_def by code_simp
  have c2: "\<not> (case handleInitialRequest options of
              None \<Rightarrow> False
            | Some hook \<Rightarrow> hook (snd w) (parseURL plain_node (drop 1 (url (snd w)))))"
    by (simp add: options_def default_options_def)
  have c3: "parseURL plain_node (drop 1 (url (snd w))) = Some (plain_url_parse ''http://example.com/'')"
    unfolding w_def req0_def options_def by code_simp
  have c4: "host (plain_url_parse ''http://example.com/'') \<noteq> ''iscorsneeded''"
    by code_simp
  have c5: "\<not> port_too_large (plain_url_parse ''http://example.com/'')"
    by code_simp
  have c6: "\<not> (\<not> (startsWith (url (snd w)) ''/http:'' \<or> startsWith (url (snd w)) ''/https:'')
            \<and> \<not> isValidHostName plain_node (hostname (plain_url_parse ''http://example.com/'')))"
    unfolding w_def req0_def options_def by code_simp
  have c7: "hasRequiredHeaders (normalizeRequireHeader (requireHeader options)) (headers (snd w))"
    by (simp add: options_def default_options_def normalizeRequireHeader_def hasRequiredHeaders_def)
  have c8: "hget (headers req0) ''origin'' = Some ''http://evil.example''"
    unfolding req0_def by code_simp
  have c9: "''http://evil.example'' \<in> set (originBlacklist options)"
    by (simp add: options_def)
  have c10: "''http://evil.example'' \<in> set (originWhitelist options)"
    by (simp add: options_def)
  from blacklist_before_whitelist[OF w c1 c2 c3 c4 c5 c6 c7 c8 c9 c10, of Map.empty "[]"]
  show ?thesis
    unfolding f options_def req0_def .
qed

text \<open>
  C10. For every request without an \<open>Origin\<close> header that reaches the origin checks, the
  origin is the empty string: the answer is the 403 of the blacklist if and only if the
  blacklist holds the empty string; when it does not, the answer is the 403 of the
  whitelist if and only if the whitelist is not empty and does not hold the empty string;
  and otherwise the request goes on to the rate limit and the steps after it, none of
  which answers 403 \<open>Forbidden\<close>.
\<close>

theorem missing_origin_is_empty:
  assumes "withCORS [] (req0\<lparr>corsAnywhereRequestState := initialState options\<rparr>) = (cors_headers, req)"
    and "req_method req \<noteq> ''OPTIONS''"
    and "\<not> (case handleInitialRequest options of
              None \<Rightarrow> False
            | Some hook \<Rightarrow> hook req (parseURL env (drop 1 (url req))))"
    and "parseURL env (drop 1 (url req)) = Some loc"
    and "host loc \<noteq> ''iscorsneeded''"
    and "\<not> port_too_large loc"
    and "\<not> (\<not> (startsWith (url req) ''/http:'' \<or> startsWith (url req) ''/https:'')
            \<and> \<not> isValidHostName env (hostname loc))"
    and "hasRequiredHeaders (normalizeRequireHeader (requireHeader options)) (headers req)"
    and "hget (headers req0) ''origin'' = None"
  shows "(getHandler options env help_text up req0
            = Some (Response 403 (Some ''Forbidden'') cors_headers
                      (''The origin '' @ [CHR 0x22] @ [] @ [CHR 0x22]
                       @ '' was blacklisted by the operator of this proxy.''))
          \<longleftrightarrow> [] \<in> set (originBlacklist options))
       \<and> ([] \<notin> set (originBlacklist options) \<longrightarrow>
            (getHandler options env help_text up req0
               = Some (Response 403 (Some ''Forbidden'') cors_headers
                         (''The origin '' @ [CHR 0x22] @ [] @ [CHR 0x22]
                          @ '' was not whitelisted by the operator of this proxy.''))
             \<longleftrightarrow> originWhitelist options \<noteq> [] \<and> [] \<notin> set (originWhitelist options)))
       \<and> ([] \<notin> set (originBlacklist options)
            \<and> (originWhitelist options = [] \<or> [] \<in> set (originWhitelist options)) \<longrightarrow>
            getHandler options env help_text up req0
              = after_origin_checks options env up cors_headers req loc []
            \<and> (\<forall>h b. getHandler options env help_text up req0
                        \<noteq> Some (Response 403 (Some ''Forbidden'') h b)))"
proof -
  have o: "hget (headers req) ''origin'' = None"
    using handler_request_origin[OF assms(1)] assms(9) by simp
  have ch: "hget cors_headers ''Access-Control-Allow-Origin'' = Some ''*''"
    using withCORS_allow_origin[of "[]" "req0\<lparr>corsAnywhereRequestState := initialState options\<rparr>"]
    by (simp add: assms(1))
  have n: "after_origin_checks options env up cors_headers req loc []
           \<noteq> Some (Response 403 (Some ''Forbidden'') h b)" for h b
  proof
    assume a: "after_origin_checks options env up cors_headers req loc []
           = Some (Response 403 (Some ''Forbidden'') h b)"
    from a ch show False
    proof (cases rule: after_origin_checks_cases)
      case (direct s m h b)
      then show ?thesis by simp
    next
      case (proxied r)
      from proxyRequest_Response[OF this] show ?thesis by simp
    qed
  qed
  define black where "black = Some (Response 403 (Some ''Forbidden'') cors_headers
                      (''The origin '' @ [CHR 0x22] @ [] @ [CHR 0x22]
                       @ '' was blacklisted by the operator of this proxy.''))"
  define white where "white = Some (Response 403 (Some ''Forbidden'') cors_headers
                      (''The origin '' @ [CHR 0x22] @ [] @ [CHR 0x22]
                       @ '' was not whitelisted by the operator of this proxy.''))"
  define rest where "rest = after_origin_checks options env up cors_headers req loc []"
  have bw: "black \<noteq> white"
    by (simp add: black_def white_def)
  have rb: "rest \<noteq> black" and rw: "rest \<noteq> white"
    using n by (simp_all add: rest_def black_def white_def)
  have e: "getHandler options env help_text up req0 =
     (if [] \<in> set (originBlacklist options) then black
      else if originWhitelist options \<noteq> [] \<and> [] \<notin> set (originWhitelist options) then white
      else rest)"
    unfolding getHandler_origin_checks[OF assms(1-8)] o option.case black_def white_def rest_def
    by (rule refl)
  have "(getHandler options env help_text up req0 = black \<longleftrightarrow> [] \<in> set (originBlacklist options))
       \<and> ([] \<notin> set (originBlacklist options) \<longrightarrow>
            (getHandler options env help_text up req0 = white
             \<longleftrightarrow> originWhitelist options \<noteq> [] \<and> [] \<notin> set (originWhitelist options)))
       \<and> ([] \<notin> set (originBlacklist options)
            \<and> (originWhitelist options = [] \<or> [] \<in> set (originWhitelist options)) \<longrightarrow>
            getHandler options env help_text up req0 = rest
            \<and> (\<forall>h b. getHandler options env help_text up req0
                        \<noteq> Some (Response 403 (Some ''Forbidden'') h b)))"
    unfolding e using bw rb rw n[folded rest_def] by (auto simp: eq_commute[of white])
  then show ?thesis
    unfolding black_def white_def rest_def .
qed

text \<open>C10 at a request without \<open>Origin\<close>, with a whitelist of one origin and no blacklist.\<close>

theorem missing_origin_is_empty_witness:
  "getHandler (default_options\<lparr>originWhitelist := [''http://good.example'']\<rparr>)
     plain_node Map.empty [] (incoming ''GET'' ''/http://example.com/'' [])
   = Some (Response 403 (Some ''Forbidden'')
             [(''Access-Control-Allow-Origin'', ''*''),
              (''Access-Control-Expose-Headers'', ''Access-Control-Allow-Origin'')]
             (''The origin '' @ [CHR 0x22] @ [] @ [CHR 0x22]
              @ '' was not whitelisted by the operator of this proxy.''))
   \<and> getHandler (default_options\<lparr>originWhitelist := [''http://good.example'']\<rparr>)
     plain_node Map.empty [] (incoming ''GET'' ''/http://example.com/'' [])
   \<noteq> Some (Response 403 (Some ''Forbidden'')
             [(''Access-Control-Allow-Origin'', ''*''),
              (''Access-Control-Expose-Headers'', ''Access-Control-Allow-Origin'')]
             (''The origin '' @ [CHR 0x22] @ [] @ [CHR 0x22]
              @ '' was blacklisted by the operator of this proxy.''))"
proof -
  define options where "options = default_options\<lparr>originWhitelist := [''http://good.example'']\<rparr>"
  define req0 where "req0 = incoming ''GET'' ''/http://example.com/'' []"
  define w where "w = withCORS [] (req0\<lparr>corsAnywhereRequestState := initialState options\<rparr>)"
  have w: "withCORS [] (req0\<lparr>corsAnywhereRequestState := initialState options\<rparr>) = (fst w, snd w)"
    by (simp add: w_def)
  have f: "fst w = [(''Access-Control-Allow-Origin'', ''*''),
              (''Access-Control-Expose-Headers'', ''Access-Control-Allow-Origin'')]"
    unfolding w_def req0_def options_def by code_simp
  have c1: "req_method (snd w) \<noteq> ''OPTIONS''"
    unfolding w_def req0_def options_def by code_simp
  have c2: "\<not> (case handleInitialRequest options of
              None \<Rightarrow> False
            | Some hook \<Rightarrow> hook (snd w) (parseURL plain_node (drop 1 (url (snd w)))))"
    by (simp add: options_def default_options_def)
  have c3: "parseURL plain_node (drop 1 (url (snd w))) = Some (plain_url_parse ''http://example.com/'')"
    unfolding w_def req0_def options_def by code_simp
  have c4: "host (plain_url_parse ''http://example.com/'') \<noteq> ''iscorsneeded''"
    by code_simp
  have c5: "\<not> port_too_large (plain_url_parse ''http://example.com/'')"
    by code_simp
  have c6: "\<not> (\<not> (startsWith (url (snd w)) ''/http:'' \<or> startsWith (url (snd w)) ''/https:'')
            \<and> \<not> isValidHostName plain_node (hostname (plain_url_parse ''http://example.com/'')))"
    unfolding w_def req0_def options_def by code_simp
  have c7: "hasRequiredHeaders (normalizeRequireHeader (requireHeader options)) (headers (snd w))"
    by (simp add: options_def default_options_def normalizeRequireHeader_def hasRequiredHeaders_def)
  have c8: "hget (headers req0) ''origin'' = None"
    unfolding req0_def by code_simp
  have b: "[] \<notin> set (originBlacklist options)"
    by (simp add: options_def default_options_def)
  have wl: "originWhitelist options \<noteq> [] \<and> [] \<notin> set (originWhitelist options)"
    by (simp add: options_def)
  from missing_origin_is_empty[OF w c1 c2 c3 c4 c5 c6 c7 c8, of Map.empty "[]"] b wl
  show ?thesis
    unfolding f options_def req0_def by blast
qed

end
